theory Spec2Isabelle
  imports Main "HOL-Library.Char_ord" "HOL-Library.List_Lexorder" "HOL-Library.Multiset"
begin

section \<open>Strings and responses\<close>

text \<open>
  Free text (titles, contents, notes, response messages) is a JavaScript string: a
  sequence of UTF-16 code units, here natural numbers. So is a user's phone number, which
  the user schema trims. Keys that the program compares, looks up or sorts as they are
  (dates, tokens, verification codes and the phone numbers they are sent to) are
  \<^typ>\<open>string\<close>, the byte sequence that the database stores and orders.
\<close>

type_synonym jsstring = "nat list"

text \<open>
  Every handler answers with the envelope \<^verbatim>\<open>{code, message, data}\<close>; \<^verbatim>\<open>data: null\<close> is
  \<open>None\<close>. Every handler also catches what its body throws and answers it with code
  500. The collections of the model do not fail, so that branch appears only where the
  handler's own code can throw (the statistics route) or where the database refuses a
  write by design (the unique index of the check-ins).
\<close>

record 'd response =
  code :: nat
  message :: jsstring
  data :: "'d option"

text \<open>\<^verbatim>\<open>!x\<close> on an optional string: absent and the empty string are falsy.\<close>

definition falsy :: "'a list option \<Rightarrow> bool" where
  "falsy x = (case x of None \<Rightarrow> True | Some s \<Rightarrow> s = [])"

text \<open>\<^verbatim>\<open>s.startsWith(p)\<close>.\<close>

definition startsWith :: "'a list \<Rightarrow> 'a list \<Rightarrow> bool" where
  "startsWith s p = (take (length p) s = p)"

text \<open>
  \<^verbatim>\<open>String.prototype.trim\<close> removes white space and line terminators from both ends;
  these are their code units.
\<close>

definition isWhiteSpace :: "nat \<Rightarrow> bool" where
  "isWhiteSpace u = (u \<in> set [9, 10, 11, 12, 13, 32, 160, 5760, 8192, 8193, 8194, 8195, 8196, 8197,
                               8198, 8199, 8200, 8201, 8202, 8232, 8233, 8239, 8287, 12288, 65279])"

definition trim :: "jsstring \<Rightarrow> jsstring" where
  "trim s = rev (dropWhile isWhiteSpace (rev (dropWhile isWhiteSpace s)))"

section \<open>SMS verification codes (utils/sms.js)\<close>

text \<open>Source: src/unnamed/part_001, and the same text in src/routes/settings.js from line 548.\<close>

text \<open>
  The messages of the results, code unit by code unit; the source has them in Chinese.
  In the order of the definitions: ask for a code first; the code has expired, ask for a
  new one; wrong code; verified; code sent (test mode: 123456); the SMS service is not
  configured; code sent; sending failed; the response could not be parsed; network error.
\<close>

definition msg_sms_none :: jsstring where
  "msg_sms_none = [35831, 20808, 33719, 21462, 39564, 35777, 30721]"

definition msg_sms_expired :: jsstring where
  "msg_sms_expired = [39564, 35777, 30721, 24050, 36807, 26399, 65292, 35831, 37325, 26032, 33719, 21462]"

definition msg_sms_wrong :: jsstring where
  "msg_sms_wrong = [39564, 35777, 30721, 38169, 35823]"

definition msg_sms_ok :: jsstring where
  "msg_sms_ok = [39564, 35777, 25104, 21151]"

definition msg_sms_mock_sent :: jsstring where
  "msg_sms_mock_sent = [39564, 35777, 30721, 24050, 21457, 36865, 65288, 27979, 35797, 27169, 24335, 65306, 49, 50, 51, 52, 53, 54, 65289]"

definition msg_sms_unconfigured :: jsstring where
  "msg_sms_unconfigured = [30701, 20449, 26381, 21153, 26410, 37197, 32622]"

definition msg_sms_sent :: jsstring where
  "msg_sms_sent = [39564, 35777, 30721, 24050, 21457, 36865]"

definition msg_sms_failed :: jsstring where
  "msg_sms_failed = [21457, 36865, 22833, 36133]"

definition msg_sms_parse :: jsstring where
  "msg_sms_parse = [35299, 26512, 21709, 24212, 22833, 36133]"

definition msg_sms_network :: jsstring where
  "msg_sms_network = [32593, 32476, 38169, 35823]"

text \<open>
  \<^verbatim>\<open>verificationCodes\<close> is a module-level \<^verbatim>\<open>Map\<close> from phone to \<^verbatim>\<open>{code, expireAt}\<close>;
  \<^verbatim>\<open>expireAt\<close> and \<^verbatim>\<open>Date.now()\<close> are milliseconds.
\<close>

record sms_entry =
  sms_code :: string
  expireAt :: int

type_synonym sms_store = "string \<rightharpoonup> sms_entry"

record sms_result =
  success :: bool
  sms_message :: jsstring

text \<open>The configuration read from the environment; an unset variable is \<open>None\<close>.\<close>

record sms_config =
  accessKeyId :: "string option"
  accessKeySecret :: "string option"
  signName :: string
  templateCode :: string

text \<open>
  What the HTTPS request to the provider ends in: a body that parses as JSON (its \<^verbatim>\<open>Code\<close>
  and optional \<^verbatim>\<open>Message\<close>), a body that does not parse, or a request error.
\<close>

datatype sms_reply = Reply string "jsstring option" | Unparseable | RequestError

text \<open>
  \<^verbatim>\<open>sendSmsCode(phone)\<close>. \<open>mock\<close> is \<^verbatim>\<open>USE_MOCK_MODE\<close>, \<open>generated\<close> the value of
  \<^verbatim>\<open>generateCode()\<close>, \<open>reply\<close> the provider's answer and \<open>now\<close> the value of
  \<^verbatim>\<open>Date.now()\<close> at the moment the code is stored.
\<close>

definition sendSmsCode ::
  "bool \<Rightarrow> sms_config \<Rightarrow> string \<Rightarrow> sms_reply \<Rightarrow> string \<Rightarrow> int \<Rightarrow> sms_store
     \<Rightarrow> sms_result \<times> sms_store" where
  "sendSmsCode mock cfg generated reply phone now verificationCodes =
     (if mock then
        (\<lparr>success = True, sms_message = msg_sms_mock_sent\<rparr>,
         verificationCodes(phone \<mapsto> \<lparr>sms_code = ''123456'', expireAt = now + 5 * 60 * 1000\<rparr>))
      else if falsy (accessKeyId cfg) \<or> falsy (accessKeySecret cfg) then
        (\<lparr>success = False, sms_message = msg_sms_unconfigured\<rparr>, verificationCodes)
      else if signName cfg = [] \<or> templateCode cfg = [] then
        (\<lparr>success = False, sms_message = msg_sms_unconfigured\<rparr>, verificationCodes)
      else
        (case reply of
           Reply c m \<Rightarrow>
             if c = ''OK'' then
               (\<lparr>success = True, sms_message = msg_sms_sent\<rparr>,
                verificationCodes(phone \<mapsto> \<lparr>sms_code = generated, expireAt = now + 5 * 60 * 1000\<rparr>))
             else
               (\<lparr>success = False,
                 sms_message = (case m of None \<Rightarrow> msg_sms_failed | Some t \<Rightarrow> if t = [] then msg_sms_failed else t)\<rparr>,
                verificationCodes)
         | Unparseable \<Rightarrow> (\<lparr>success = False, sms_message = msg_sms_parse\<rparr>, verificationCodes)
         | RequestError \<Rightarrow> (\<lparr>success = False, sms_message = msg_sms_network\<rparr>, verificationCodes)))"

text \<open>\<^verbatim>\<open>verifySmsCode(phone, code)\<close>; \<open>input\<close> is the \<^verbatim>\<open>code\<close> argument and \<open>now\<close> the value of \<^verbatim>\<open>Date.now()\<close>.\<close>

definition verifySmsCode ::
  "string \<Rightarrow> string \<Rightarrow> int \<Rightarrow> sms_store \<Rightarrow> sms_result \<times> sms_store" where
  "verifySmsCode phone input now verificationCodes =
     (case verificationCodes phone of
        None \<Rightarrow> (\<lparr>success = False, sms_message = msg_sms_none\<rparr>, verificationCodes)
      | Some stored \<Rightarrow>
          if now > expireAt stored then
            (\<lparr>success = False, sms_message = msg_sms_expired\<rparr>, verificationCodes(phone := None))
          else if sms_code stored \<noteq> input then
            (\<lparr>success = False, sms_message = msg_sms_wrong\<rparr>, verificationCodes)
          else
            (\<lparr>success = True, sms_message = msg_sms_ok\<rparr>, verificationCodes(phone := None)))"

section \<open>Auth middleware (middleware/auth.js)\<close>

text \<open>Source: src/middleware/auth.js.\<close>

text \<open>
  The messages, in the order of the definitions: log in first (no token given); the login
  has expired; the token is invalid; the prefix of the message of any other failure.
\<close>

definition msg_no_token :: jsstring where
  "msg_no_token = [35831, 20808, 30331, 24405, 65288, 26410, 25552, 20379, 32, 116, 111, 107, 101, 110, 65289]"

definition msg_token_expired :: jsstring where
  "msg_token_expired = [30331, 24405, 24050, 36807, 26399, 65292, 35831, 37325, 26032, 30331, 24405]"

definition msg_token_invalid :: jsstring where
  "msg_token_invalid = [116, 111, 107, 101, 110, 32, 26080, 25928, 65292, 35831, 37325, 26032, 30331, 24405]"

definition msg_auth_failed :: jsstring where
  "msg_auth_failed = [35748, 35777, 22833, 36133, 58, 32]"

text \<open>
  \<^verbatim>\<open>jwt.verify(token, secret)\<close> belongs to the jsonwebtoken library: it is a parameter
  of the model, returning the decoded \<^verbatim>\<open>userId\<close> or the error it throws. The middleware
  tells the errors apart by \<^verbatim>\<open>error.name\<close>; each carries its \<^verbatim>\<open>error.message\<close>.
\<close>

datatype jwt_error = TokenExpiredError jsstring | JsonWebTokenError jsstring | OtherError jsstring

text \<open>The middleware either calls \<^verbatim>\<open>next()\<close> with \<^verbatim>\<open>req.user = {userId}\<close> or responds.\<close>

datatype 'u auth_outcome = Next 'u | Respond "unit response"

definition authMiddleware :: "(string \<Rightarrow> jwt_error + 'u) \<Rightarrow> string option \<Rightarrow> 'u auth_outcome" where
  "authMiddleware jwt_verify authHeader =
     (if falsy authHeader then
        Respond \<lparr>code = 401, message = msg_no_token, data = None\<rparr>
      else
        let h = the authHeader;
            token = (if startsWith h ''Bearer '' then drop 7 h else h)
        in case jwt_verify token of
             Inr userId \<Rightarrow> Next userId
           | Inl (TokenExpiredError m) \<Rightarrow>
               Respond \<lparr>code = 401, message = msg_token_expired, data = None\<rparr>
           | Inl (JsonWebTokenError m) \<Rightarrow>
               Respond \<lparr>code = 401, message = msg_token_invalid, data = None\<rparr>
           | Inl (OtherError m) \<Rightarrow>
               Respond \<lparr>code = 500, message = msg_auth_failed @ m, data = None\<rparr>)"

section \<open>Login (routes/user.js)\<close>

text \<open>
  Source: src/modules/user.js, and the two later versions of the file in src/unnamed/part_000;
  the user model is the first document of src/models/User.js.
\<close>









section \<open>Calendar dates (the Date calls of routes/checkin.js)\<close>

text \<open>Source: the check-in routes, in src/models/User.js from line 460.\<close>

text \<open>
  A calendar date is a year, a month (1..12) and a day of the month. The handlers read
  dates out of \<^verbatim>\<open>toISOString()\<close>, which prints UTC, and never a time of day; the Dates
  they build with \<^verbatim>\<open>new Date(s)\<close> from a date-only string are UTC midnights. Only
  \<^verbatim>\<open>getDate\<close> and \<^verbatim>\<open>setDate\<close> work on local time, through the time zone of the
  process.
\<close>

type_synonym jsdate = "int \<times> nat \<times> nat"

definition isLeap :: "int \<Rightarrow> bool" where
  "isLeap y = (y mod 4 = 0 \<and> (y mod 100 \<noteq> 0 \<or> y mod 400 = 0))"

definition daysInMonth :: "int \<Rightarrow> nat \<Rightarrow> nat" where
  "daysInMonth y m =
     (if m = 2 then (if isLeap y then 29 else 28)
      else if m = 4 \<or> m = 6 \<or> m = 9 \<or> m = 11 then 30 else 31)"

definition validDate :: "jsdate \<Rightarrow> bool" where
  "validDate c = (case c of (y, m, d) \<Rightarrow> 1 \<le> m \<and> m \<le> 12 \<and> 1 \<le> d \<and> d \<le> daysInMonth y m)"

text \<open>
  \<^verbatim>\<open>prevDate.setDate(prevDate.getDate() - 1)\<close>: day \<open>d - 1\<close> of the same month; day 0 is
  the last day of the month before, and month 0 is December of the year before.
\<close>

fun prevDay :: "jsdate \<Rightarrow> jsdate" where
  "prevDay (y, m, d) =
     (if d > 1 then (y, m, d - 1)
      else if m > 1 then (y, m - 1, daysInMonth y (m - 1))
      else (y - 1, 12, 31))"

fun nextDay :: "jsdate \<Rightarrow> jsdate" where
  "nextDay (y, m, d) =
     (if d < daysInMonth y m then (y, m, d + 1)
      else if m < 12 then (y, m + 1, 1)
      else (y + 1, 1, 1))"

text \<open>
  The time zone of the process, as the two functions through which ECMAScript's Date
  reads it: the offset of local time (minutes east of UTC) in force at a UTC date and
  minute of the day, and the offset by which a local date and minute of the day is read
  back as UTC. In a zone without daylight saving both are one constant.
\<close>

record timezone =
  offsetAtUTC :: "jsdate \<Rightarrow> int \<Rightarrow> int"
  offsetAtLocal :: "jsdate \<Rightarrow> int \<Rightarrow> int"

definition fixedZone :: "int \<Rightarrow> timezone" where
  "fixedZone off = \<lparr>offsetAtUTC = (\<lambda>c mi. off), offsetAtLocal = (\<lambda>c mi. off)\<rparr>"

text \<open>A date and minute of the day, \<open>n\<close> minutes later (earlier for negative \<open>n\<close>).\<close>

definition shiftDays :: "int \<Rightarrow> jsdate \<Rightarrow> jsdate" where
  "shiftDays k c = (if 0 \<le> k then (nextDay ^^ nat k) c else (prevDay ^^ nat (- k)) c)"

definition addMinutes :: "int \<Rightarrow> jsdate \<times> int \<Rightarrow> jsdate \<times> int" where
  "addMinutes n t = (shiftDays ((snd t + n) div 1440) (fst t), (snd t + n) mod 1440)"

text \<open>
  \<^verbatim>\<open>const prevDate = new Date(checkDate); prevDate.setDate(prevDate.getDate() - 1)\<close>, from
  the date that \<^verbatim>\<open>checkDate\<close> parses to, to the UTC date of \<^verbatim>\<open>prevDate\<close> (what
  \<^verbatim>\<open>toISOString()\<close> prints of it). The Date is the UTC midnight of the date;
  \<^verbatim>\<open>getDate()\<close> reads its local day; \<^verbatim>\<open>setDate\<close> keeps the local time of day, moves the
  local day (day 0 being the last day of the month before), and reads the result back as
  UTC.
\<close>

definition setDateBack :: "timezone \<Rightarrow> jsdate \<Rightarrow> jsdate" where
  "setDateBack tz c =
     (let (localDay, localMinute) = addMinutes (offsetAtUTC tz c 0) (c, 0);
          newDay = prevDay localDay;
          (utcDay, utcMinute) = addMinutes (- offsetAtLocal tz newDay localMinute) (newDay, localMinute)
      in utcDay)"

definition digitChar :: "nat \<Rightarrow> char" where
  "digitChar n = ''0123456789'' ! (n mod 10)"

definition pad2 :: "nat \<Rightarrow> string" where
  "pad2 n = [digitChar (n div 10), digitChar n]"

definition pad4 :: "nat \<Rightarrow> string" where
  "pad4 n = [digitChar (n div 1000), digitChar (n div 100), digitChar (n div 10), digitChar n]"

definition pad6 :: "nat \<Rightarrow> string" where
  "pad6 n = [digitChar (n div 100000), digitChar (n div 10000), digitChar (n div 1000),
             digitChar (n div 100), digitChar (n div 10), digitChar n]"

text \<open>
  \<^verbatim>\<open>toISOString().slice(0, 10)\<close>. Years 0 to 9999 print with four digits, so the slice is
  \<^verbatim>\<open>YYYY-MM-DD\<close>; any other year prints as a sign and six digits, and the slice ends after
  the month.
\<close>

fun toISODate :: "jsdate \<Rightarrow> string" where
  "toISODate (y, m, d) =
     (if 0 \<le> y \<and> y \<le> 9999 then pad4 (nat y) @ ''-'' @ pad2 m @ ''-'' @ pad2 d
      else take 10 ((if y < 0 then ''-'' else ''+'') @ pad6 (nat \<bar>y\<bar>) @ ''-'' @ pad2 m @ ''-'' @ pad2 d))"

definition digitVal :: "char \<Rightarrow> nat option" where
  "digitVal c = map_of (zip ''0123456789'' [0..<10]) c"

fun numVal :: "string \<Rightarrow> nat \<Rightarrow> nat option" where
  "numVal [] acc = Some acc"
| "numVal (c # cs) acc = (case digitVal c of None \<Rightarrow> None | Some v \<Rightarrow> numVal cs (10 * acc + v))"

text \<open>
  \<^verbatim>\<open>new Date(s)\<close> for the two date-only forms of the ECMAScript date-time string format
  that \<open>toISODate\<close> produces: \<^verbatim>\<open>YYYY-MM-DD\<close>, and \<^verbatim>\<open>\<plusminus>YYYYYY-MM\<close> (the first day of that
  month; \<^verbatim>\<open>-000000\<close> is not a year). Anything else is \<open>None\<close>, an invalid Date; the
  handlers pass no other string to \<^verbatim>\<open>new Date\<close>.
\<close>

definition parseISODate :: "string \<Rightarrow> jsdate option" where
  "parseISODate s =
     (if length s = 10 \<and> s ! 4 = CHR ''-'' \<and> s ! 7 = CHR ''-'' then
        (case (numVal (take 4 s) 0, numVal (take 2 (drop 5 s)) 0, numVal (drop 8 s) 0) of
           (Some y, Some m, Some d) \<Rightarrow>
             if validDate (int y, m, d) then Some (int y, m, d) else None
         | _ \<Rightarrow> None)
      else if length s = 10 \<and> (s ! 0 = CHR ''+'' \<or> s ! 0 = CHR ''-'') \<and> s ! 7 = CHR ''-'' then
        (case (numVal (take 6 (drop 1 s)) 0, numVal (drop 8 s) 0) of
           (Some y, Some m) \<Rightarrow>
             if 1 \<le> m \<and> m \<le> 12 \<and> \<not> (s ! 0 = CHR ''-'' \<and> y = 0)
             then Some (if s ! 0 = CHR ''-'' then - int y else int y, m, 1)
             else None
         | _ \<Rightarrow> None)
      else None)"

text \<open>
  \<^verbatim>\<open>Number.isSafeInteger\<close>: the integers that a JavaScript number holds exactly, of
  magnitude at most \<open>2\<^sup>5\<^sup>3 - 1\<close>. \<^verbatim>\<open>String(n)\<close> prints these in plain decimal, which is
  what \<open>showInt\<close> prints; a greater number prints as rounded digits or with an exponent,
  which \<open>showInt\<close> does not reproduce, so what is proved of it is for safe integers
  only. The clock's year and month are safe integers. \<open>padStart2\<close> is
  \<^verbatim>\<open>padStart(2, '0')\<close>.
\<close>

definition isSafeInteger :: "int \<Rightarrow> bool" where
  "isSafeInteger n = (\<bar>n\<bar> \<le> 2 ^ 53 - 1)"

fun showNat :: "nat \<Rightarrow> string" where
  "showNat n = (if n < 10 then [digitChar n] else showNat (n div 10) @ [digitChar n])"

declare showNat.simps [simp del]

definition showInt :: "int \<Rightarrow> string" where
  "showInt i = (if i < 0 then CHR ''-'' # showNat (nat (- i)) else showNat (nat i))"

definition padStart2 :: "string \<Rightarrow> string" where
  "padStart2 s = replicate (2 - length s) CHR ''0'' @ s"

text \<open>
  What the handlers read from the clock: \<^verbatim>\<open>getFullYear()\<close> and \<^verbatim>\<open>getMonth()\<close> (local
  time, months from 0), the UTC date that \<^verbatim>\<open>toISOString()\<close> prints, and the time zone.
\<close>

record clock =
  getFullYear :: int
  getMonth :: int
  utcDate :: jsdate
  timeZone :: timezone

section \<open>Check-in records and routes (models/CheckIn.js, routes/checkin.js)\<close>

text \<open>Source: src/models/CheckIn.js, and src/models/User.js from line 460.\<close>

text \<open>
  The messages, in the order of the definitions: the kind must not be empty; the kind must
  be \<^verbatim>\<open>completed\<close> or \<^verbatim>\<open>incomplete\<close>; already checked in today; checked in (completed);
  recorded (incomplete); the date already has a record; fetched; fetching the statistics
  failed; checked in today; not yet checked in today.
\<close>

definition msg_type_missing :: jsstring where
  "msg_type_missing = [31614, 21040, 31867, 22411, 19981, 33021, 20026, 31354, 65288, 99, 111, 109, 112, 108, 101, 116, 101, 100, 32, 25110, 32, 105, 110, 99, 111, 109, 112, 108, 101, 116, 101, 65289]"

definition msg_type_invalid :: jsstring where
  "msg_type_invalid = [31614, 21040, 31867, 22411, 24517, 39035, 26159, 32, 99, 111, 109, 112, 108, 101, 116, 101, 100, 65288, 23436, 25104, 65289, 25110, 32, 105, 110, 99, 111, 109, 112, 108, 101, 116, 101, 65288, 25163, 27424, 65289]"

definition msg_duplicate :: jsstring where
  "msg_duplicate = [20170, 22825, 24050, 32463, 31614, 21040, 36807, 20102, 65292, 19981, 33021, 37325, 22797, 31614, 21040]"

definition msg_checkin_completed :: jsstring where
  "msg_checkin_completed = [31614, 21040, 25104, 21151, 65281, 32487, 32493, 20445, 25345, 20132, 26131, 32426, 24459, 65281]"

definition msg_checkin_incomplete :: jsstring where
  "msg_checkin_incomplete = [24050, 35760, 24405, 25163, 27424, 34892, 20026, 65292, 19979, 27425, 27880, 24847, 65281]"

definition msg_date_taken :: jsstring where
  "msg_date_taken = [35813, 26085, 26399, 24050, 26377, 31614, 21040, 35760, 24405]"

definition msg_get_ok :: jsstring where
  "msg_get_ok = [33719, 21462, 25104, 21151]"

definition msg_stats_failed :: jsstring where
  "msg_stats_failed = [33719, 21462, 32479, 35745, 25968, 25454, 22833, 36133]"

definition msg_checked_today :: jsstring where
  "msg_checked_today = [20170, 22825, 24050, 31614, 21040]"

definition msg_not_checked_today :: jsstring where
  "msg_not_checked_today = [20170, 22825, 36824, 26410, 31614, 21040]"

text \<open>
  A document of the CheckIn collection. \<open>ci_type\<close> is the schema's \<^verbatim>\<open>type\<close> field.
  \<^verbatim>\<open>createdAt\<close> and the identifiers of the task sub-documents are left out: no route
  reads them.
\<close>

record task =
  task_title :: jsstring
  task_content :: jsstring

record checkin =
  ci_id :: nat
  ci_userId :: nat
  ci_date :: string
  ci_type :: string
  ci_isCompleted :: bool
  ci_incompleteTasks :: "task list"
  ci_note :: jsstring

text \<open>The projection of a record that the routes put into their responses.\<close>

record checkin_view =
  v_id :: nat
  v_date :: string
  v_type :: string
  v_isCompleted :: bool
  v_incompleteTasks :: "task list"
  v_note :: jsstring

definition view :: "checkin \<Rightarrow> checkin_view" where
  "view r = \<lparr>v_id = ci_id r, v_date = ci_date r, v_type = ci_type r,
             v_isCompleted = ci_isCompleted r, v_incompleteTasks = ci_incompleteTasks r,
             v_note = ci_note r\<rparr>"

text \<open>\<^verbatim>\<open>CheckIn.findOne({ userId, date })\<close>.\<close>

definition findOneCheckIn :: "checkin list \<Rightarrow> nat \<Rightarrow> string \<Rightarrow> checkin option" where
  "findOneCheckIn checkIns uid d = find (\<lambda>r. ci_userId r = uid \<and> ci_date r = d) checkIns"

text \<open>
  \<^verbatim>\<open>checkIn.save()\<close> under the unique index \<^verbatim>\<open>{ userId: 1, date: 1 }\<close>: the insert is
  refused (duplicate key, error code 11000, here \<open>None\<close>) when the collection holds a
  document with the same user and date.
\<close>

definition saveCheckIn :: "checkin \<Rightarrow> checkin list \<Rightarrow> checkin list option" where
  "saveCheckIn r checkIns =
     (if \<exists>x \<in> set checkIns. ci_userId x = ci_userId r \<and> ci_date x = ci_date r then None
      else Some (checkIns @ [r]))"

text \<open>The body of \<^verbatim>\<open>POST /api/checkin\<close>; an absent field is \<open>None\<close>.\<close>

record checkin_body =
  body_type :: "string option"
  body_incompleteTasks :: "task list option"
  body_note :: "jsstring option"
  body_date :: "string option"

datatype checkin_data = ExistingRecord nat string string | CheckIn checkin_view

text \<open>
  \<^verbatim>\<open>date || new Date().toISOString().slice(0, 10)\<close>: the date of the body, or today's
  when the body has none.
\<close>

definition checkInDateOf :: "checkin_body \<Rightarrow> clock \<Rightarrow> string" where
  "checkInDateOf body now =
     (if falsy (body_date body) then toISODate (utcDate now) else the (body_date body))"

text \<open>
  \<^verbatim>\<open>router.post('/')\<close>, the spec's \<open>recordCheckIn\<close>. \<open>uid\<close> is \<^verbatim>\<open>req.user.userId\<close>,
  \<open>oid\<close> the identifier generated for the new document. It returns the response and the
  collection.
\<close>

definition recordCheckIn ::
  "nat \<Rightarrow> checkin_body \<Rightarrow> clock \<Rightarrow> nat \<Rightarrow> checkin list \<Rightarrow> checkin_data response \<times> checkin list" where
  "recordCheckIn uid body now oid checkIns =
     (if falsy (body_type body) then
        (\<lparr>code = 400, message = msg_type_missing, data = None\<rparr>, checkIns)
      else if the (body_type body) \<notin> set [''completed'', ''incomplete''] then
        (\<lparr>code = 400, message = msg_type_invalid, data = None\<rparr>, checkIns)
      else
        let type = the (body_type body);
            checkInDate = checkInDateOf body now
        in case findOneCheckIn checkIns uid checkInDate of
             Some existingCheckIn \<Rightarrow>
               (\<lparr>code = 400, message = msg_duplicate,
                 data = Some (ExistingRecord (ci_id existingCheckIn) (ci_date existingCheckIn)
                                (ci_type existingCheckIn))\<rparr>,
                checkIns)
           | None \<Rightarrow>
               let checkIn = \<lparr>ci_id = oid, ci_userId = uid, ci_date = checkInDate, ci_type = type,
                              ci_isCompleted = (type = ''completed''),
                              ci_incompleteTasks = (case body_incompleteTasks body of None \<Rightarrow> [] | Some ts \<Rightarrow> ts),
                              ci_note = (case body_note body of None \<Rightarrow> [] | Some n \<Rightarrow> n)\<rparr>
               in case saveCheckIn checkIn checkIns of
                    None \<Rightarrow> (\<lparr>code = 400, message = msg_date_taken, data = None\<rparr>, checkIns)
                  | Some checkIns' \<Rightarrow>
                      (\<lparr>code = 200,
                        message = (if type = ''completed'' then msg_checkin_completed
                                   else msg_checkin_incomplete),
                        data = Some (CheckIn (view checkIn))\<rparr>,
                       checkIns'))"

text \<open>
  The spec's \<open>DuplicateCheckIn\<close> error: code 400 with the duplicate message and the
  existing record.
\<close>

definition isDuplicateCheckIn :: "checkin_data response \<Rightarrow> bool" where
  "isDuplicateCheckIn resp =
     (code resp = 400 \<and> message resp = msg_duplicate \<and>
      (case data resp of Some (ExistingRecord i d t) \<Rightarrow> True | _ \<Rightarrow> False))"

text \<open>
  The collections that sequences of requests produce from the empty one. Only
  \<^verbatim>\<open>router.post('/')\<close> writes; the three GET routes return no collection.
\<close>

inductive reachableCheckIns :: "checkin list \<Rightarrow> bool" where
  empty: "reachableCheckIns []"
| post: "reachableCheckIns checkIns \<Longrightarrow>
         reachableCheckIns (snd (recordCheckIn uid body now oid checkIns))"

text \<open>
  \<^verbatim>\<open>parseInt(req.query.x) || dflt\<close>: \<open>None\<close> is \<^verbatim>\<open>NaN\<close>; \<^verbatim>\<open>NaN\<close> and 0 give way to the
  default.
\<close>

definition orDefault :: "int option \<Rightarrow> int \<Rightarrow> int" where
  "orDefault q dflt = (case q of None \<Rightarrow> dflt | Some v \<Rightarrow> if v = 0 then dflt else v)"

definition startDate :: "int \<Rightarrow> int \<Rightarrow> string" where
  "startDate year month = showInt year @ ''-'' @ padStart2 (showInt month) @ ''-01''"

definition endDate :: "int \<Rightarrow> int \<Rightarrow> string" where
  "endDate year month = showInt year @ ''-'' @ padStart2 (showInt month) @ ''-31''"

text \<open>
  \<^verbatim>\<open>CheckIn.find({ userId, date: { $gte: startDate, $lte: endDate } })\<close>: strings are
  compared byte by byte, a proper prefix before its extensions, which is the order of
  \<^typ>\<open>string\<close>.
\<close>

definition findInRange :: "checkin list \<Rightarrow> nat \<Rightarrow> string \<Rightarrow> string \<Rightarrow> checkin list" where
  "findInRange checkIns uid lo hi =
     filter (\<lambda>r. ci_userId r = uid \<and> lo \<le> ci_date r \<and> ci_date r \<le> hi) checkIns"

record month_data =
  md_year :: int
  md_month :: int
  md_total :: nat
  md_completedCount :: nat
  md_incompleteCount :: nat
  md_records :: "checkin_view list"

text \<open>
  \<^verbatim>\<open>router.get('/')\<close>, the spec's \<open>listMonth\<close>. \<open>query_year\<close> and \<open>query_month\<close> are
  the values of \<^verbatim>\<open>parseInt\<close> on the query parameters. \<^verbatim>\<open>.sort({ date: 1 })\<close> is a sort
  by the date key.
\<close>

definition listMonth ::
  "nat \<Rightarrow> int option \<Rightarrow> int option \<Rightarrow> clock \<Rightarrow> checkin list \<Rightarrow> month_data response" where
  "listMonth uid query_year query_month now checkIns =
     (let year = orDefault query_year (getFullYear now);
          month = orDefault query_month (getMonth now + 1);
          records = sort_key ci_date (findInRange checkIns uid (startDate year month) (endDate year month));
          completedCount = length (filter (\<lambda>r. ci_isCompleted r) records);
          incompleteCount = length (filter (\<lambda>r. \<not> ci_isCompleted r) records)
      in \<lparr>code = 200, message = msg_get_ok,
          data = Some \<lparr>md_year = year, md_month = month, md_total = length records,
                       md_completedCount = completedCount, md_incompleteCount = incompleteCount,
                       md_records = map view records\<rparr>\<rparr>)"

record today_data =
  hasCheckedIn :: bool
  today_record :: "checkin_view option"

text \<open>\<^verbatim>\<open>router.get('/today')\<close>.\<close>

definition todayStatus :: "nat \<Rightarrow> clock \<Rightarrow> checkin list \<Rightarrow> today_data response" where
  "todayStatus uid now checkIns =
     (case findOneCheckIn checkIns uid (toISODate (utcDate now)) of
        Some r \<Rightarrow> \<lparr>code = 200, message = msg_checked_today,
                    data = Some \<lparr>hasCheckedIn = True, today_record = Some (view r)\<rparr>\<rparr>
      | None \<Rightarrow> \<lparr>code = 200, message = msg_not_checked_today,
                  data = Some \<lparr>hasCheckedIn = False, today_record = None\<rparr>\<rparr>)"

text \<open>
  The loop of \<^verbatim>\<open>router.get('/stats')\<close>. While the cursor \<open>checkDate\<close> is among the dates,
  it counts and moves the cursor by \<open>setDateBack\<close>; \<open>tz\<close> is the time zone of the process.
  \<^verbatim>\<open>toISOString()\<close> of an invalid Date throws a RangeError. The loop is written as the source has it, with no bound: not
  returning is \<open>None\<close>.
\<close>

datatype js_error = RangeError

partial_function (option) streakLoop ::
  "timezone \<Rightarrow> string list \<Rightarrow> string \<Rightarrow> nat \<Rightarrow> (js_error + nat) option" where
  "streakLoop tz checkInDates checkDate streak =
     (if checkDate \<in> set checkInDates then
        (case parseISODate checkDate of
           None \<Rightarrow> Some (Inl RangeError)
         | Some d \<Rightarrow>
             streakLoop tz checkInDates (toISODate (setDateBack tz d)) (streak + 1))
      else Some (Inr streak))"

record counts =
  total :: nat
  completed :: nat
  incomplete :: nat

record stats_data =
  monthly :: counts
  overall :: counts
  streak :: nat

definition countsOf :: "checkin list \<Rightarrow> counts" where
  "countsOf rs = \<lparr>total = length rs,
                  completed = length (filter (\<lambda>r. ci_isCompleted r) rs),
                  incomplete = length (filter (\<lambda>r. \<not> ci_isCompleted r) rs)\<rparr>"

text \<open>
  \<^verbatim>\<open>router.get('/stats')\<close>, the spec's \<open>computeStats\<close>. \<open>yesterday\<close> is the date of
  \<^verbatim>\<open>now.getTime() - 24 * 60 * 60 * 1000\<close>, the UTC day before \<open>today\<close>. An exception is
  answered with code 500.
\<close>

definition computeStats :: "nat \<Rightarrow> clock \<Rightarrow> checkin list \<Rightarrow> stats_data response option" where
  "computeStats uid now checkIns =
     (let year = getFullYear now;
          month = getMonth now + 1;
          monthlyRecords = findInRange checkIns uid (startDate year month) (endDate year month);
          allRecords = rev (sort_key ci_date (filter (\<lambda>r. ci_userId r = uid) checkIns));
          today = toISODate (utcDate now);
          yesterday = toISODate (prevDay (utcDate now));
          checkInDates = map ci_date allRecords
      in case (if today \<in> set checkInDates \<or> yesterday \<in> set checkInDates then
                 streakLoop (timeZone now) checkInDates
                   (if today \<in> set checkInDates then today else yesterday) 0
               else Some (Inr 0)) of
           None \<Rightarrow> None
         | Some (Inl e) \<Rightarrow> Some \<lparr>code = 500, message = msg_stats_failed, data = None\<rparr>
         | Some (Inr n) \<Rightarrow>
             Some \<lparr>code = 200, message = msg_get_ok,
                   data = Some \<lparr>monthly = countsOf monthlyRecords, overall = countsOf allRecords,
                                streak = n\<rparr>\<rparr>)"

text \<open>
  The reference walk of the specification, in its words. A day has a record when the user
  has a check-in, of either kind, whose date is that day's \<^verbatim>\<open>YYYY-MM-DD\<close> string.
  \<open>daysBack i day\<close> is the calendar day \<open>i\<close> days before \<open>day\<close>. \<open>streakSpec has today n\<close>
  says that \<open>n\<close> is the streak: 0 if neither today nor yesterday has a record; otherwise
  the walk starts at today if today has a record, else at yesterday, each of the first
  \<open>n\<close> days of the walk has a record and the next one has none.
\<close>

definition hasRecord :: "checkin list \<Rightarrow> nat \<Rightarrow> jsdate \<Rightarrow> bool" where
  "hasRecord checkIns uid day = (\<exists>r \<in> set checkIns. ci_userId r = uid \<and> ci_date r = toISODate day)"

definition daysBack :: "nat \<Rightarrow> jsdate \<Rightarrow> jsdate" where
  "daysBack i day = (prevDay ^^ i) day"

definition streakSpec :: "(jsdate \<Rightarrow> bool) \<Rightarrow> jsdate \<Rightarrow> nat \<Rightarrow> bool" where
  "streakSpec has today n =
     (if \<not> has today \<and> \<not> has (prevDay today) then n = 0
      else let start = (if has today then today else prevDay today)
           in (\<forall>i<n. has (daysBack i start)) \<and> \<not> has (daysBack n start))"

text \<open>
  Central European time in 2024, as a time zone of the process: one hour east of UTC, two
  hours from 2024-03-31 01:00 UTC to 2024-10-27 01:00 UTC. A local time is read back with
  the summer offset from 03:00 on 2024-03-31 up to 03:00 on 2024-10-27, the local hour that
  occurs twice being read with the offset before the change. \<open>minuteStamp\<close> orders dates
  and minutes of the day. (The rule of other years is not written out; the development
  uses the zone in October 2024 only.)
\<close>

definition minuteStamp :: "jsdate \<Rightarrow> int \<Rightarrow> int" where
  "minuteStamp c mi = (case c of (y, m, d) \<Rightarrow> ((y * 100 + int m) * 100 + int d) * 10000 + mi)"

definition europeBerlin2024 :: timezone where
  "europeBerlin2024 =
     \<lparr>offsetAtUTC = (\<lambda>c mi. if minuteStamp (2024, 3, 31) 60 \<le> minuteStamp c mi
                                  \<and> minuteStamp c mi < minuteStamp (2024, 10, 27) 60
                               then 120 else 60),
      offsetAtLocal = (\<lambda>c mi. if minuteStamp (2024, 3, 31) 180 \<le> minuteStamp c mi
                                    \<and> minuteStamp c mi < minuteStamp (2024, 10, 27) 180
                                 then 120 else 60)\<rparr>"

section \<open>User settings (models/UserSettings.js, routes/settings.js)\<close>

text \<open>Source: src/models/UserSettings.js, and src/routes/settings.js up to line 547.\<close>

text \<open>
  The messages, in the order of the definitions: malformed parameter;
  principles saved; homework saved; plans saved; the title must not be empty; homework
  added; plan added; no settings; no such homework; no such plan; homework updated; plan
  updated; homework deleted; plan deleted.
\<close>

definition msg_bad_params :: jsstring where
  "msg_bad_params = [21442, 25968, 26684, 24335, 38169, 35823]"

definition msg_principles_saved :: jsstring where
  "msg_principles_saved = [20132, 26131, 21407, 21017, 20445, 23384, 25104, 21151]"

definition msg_homework_saved :: jsstring where
  "msg_homework_saved = [20132, 26131, 21151, 35838, 20445, 23384, 25104, 21151]"

definition msg_plans_saved :: jsstring where
  "msg_plans_saved = [20132, 26131, 35745, 21010, 20445, 23384, 25104, 21151]"

definition msg_title_empty :: jsstring where
  "msg_title_empty = [26631, 39064, 19981, 33021, 20026, 31354]"

definition msg_homework_added :: jsstring where
  "msg_homework_added = [20132, 26131, 21151, 35838, 28155, 21152, 25104, 21151]"

definition msg_plan_added :: jsstring where
  "msg_plan_added = [20132, 26131, 35745, 21010, 28155, 21152, 25104, 21151]"

definition msg_settings_missing :: jsstring where
  "msg_settings_missing = [35774, 32622, 19981, 23384, 22312]"

definition msg_homework_missing :: jsstring where
  "msg_homework_missing = [21151, 35838, 19981, 23384, 22312]"

definition msg_plan_missing :: jsstring where
  "msg_plan_missing = [35745, 21010, 19981, 23384, 22312]"

definition msg_homework_updated :: jsstring where
  "msg_homework_updated = [20132, 26131, 21151, 35838, 26356, 26032, 25104, 21151]"

definition msg_plan_updated :: jsstring where
  "msg_plan_updated = [20132, 26131, 35745, 21010, 26356, 26032, 25104, 21151]"

definition msg_homework_deleted :: jsstring where
  "msg_homework_deleted = [20132, 26131, 21151, 35838, 21024, 38500, 25104, 21151]"

definition msg_plan_deleted :: jsstring where
  "msg_plan_deleted = [20132, 26131, 35745, 21010, 21024, 38500, 25104, 21151]"

text \<open>\<^verbatim>\<open>x || ''\<close> on an optional string.\<close>

definition orEmpty :: "jsstring option \<Rightarrow> jsstring" where
  "orEmpty x = (case x of None \<Rightarrow> [] | Some s \<Rightarrow> s)"

text \<open>
  A sub-document of \<^verbatim>\<open>tradingItemSchema\<close> (and of \<^verbatim>\<open>planItemSchema\<close> in
  models/DailyRecord.js, which has the same text): an \<^verbatim>\<open>_id\<close>, a title and a content.
  Both strings are declared \<^verbatim>\<open>trim: true\<close>, so whatever is assigned to them is stored
  trimmed. Every sub-document that is cast from a plain object gets a fresh identifier;
  the model draws identifiers from a counter kept with the collection.
\<close>

record item =
  item_id :: nat
  item_title :: jsstring
  item_content :: jsstring

definition castItem :: "nat \<Rightarrow> jsstring \<times> jsstring \<Rightarrow> item" where
  "castItem i tc = \<lparr>item_id = i, item_title = trim (fst tc), item_content = trim (snd tc)\<rparr>"

fun castItems :: "nat \<Rightarrow> (jsstring \<times> jsstring) list \<Rightarrow> item list" where
  "castItems n [] = []"
| "castItems n (tc # tcs) = castItem n tc # castItems (Suc n) tcs"

text \<open>
  \<^verbatim>\<open>list.id(id)\<close>: the first sub-document with that identifier. The \<^verbatim>\<open>:id\<close> parameter
  of a route is a string; \<open>None\<close> stands for one that is no identifier, which matches
  nothing.
\<close>

definition findItem :: "nat option \<Rightarrow> item list \<Rightarrow> item option" where
  "findItem idParam items = find (\<lambda>i. Some (item_id i) = idParam) items"

text \<open>
  \<^verbatim>\<open>item.title = ...; item.content = ...\<close> on the sub-document that \<^verbatim>\<open>id()\<close> returned,
  and \<^verbatim>\<open>list.pull(id)\<close>, which removes every sub-document with that identifier.
\<close>

fun assignItem :: "nat option \<Rightarrow> jsstring \<Rightarrow> jsstring \<Rightarrow> item list \<Rightarrow> item list" where
  "assignItem idParam t c [] = []"
| "assignItem idParam t c (i # is) =
     (if Some (item_id i) = idParam
      then i\<lparr>item_title := trim t, item_content := trim c\<rparr> # is
      else i # assignItem idParam t c is)"

definition pull :: "nat option \<Rightarrow> item list \<Rightarrow> item list" where
  "pull idParam items = filter (\<lambda>i. Some (item_id i) \<noteq> idParam) items"

text \<open>
  What the list routes do to the submitted array: \<^verbatim>\<open>title || ''\<close> and \<^verbatim>\<open>content || ''\<close>
  for each element, then \<^verbatim>\<open>filter(item => item.title.trim())\<close>.
\<close>

definition submittedItems :: "(jsstring option \<times> jsstring option) list \<Rightarrow> (jsstring \<times> jsstring) list" where
  "submittedItems xs =
     filter (\<lambda>tc. trim (fst tc) \<noteq> []) (map (\<lambda>x. (orEmpty (fst x), orEmpty (snd x))) xs)"

text \<open>\<^verbatim>\<open>!title || !title.trim()\<close>.\<close>

definition blankTitle :: "jsstring option \<Rightarrow> bool" where
  "blankTitle title = (falsy title \<or> trim (the title) = [])"

definition DEFAULT_HOMEWORK :: "(jsstring \<times> jsstring) list" where
  "DEFAULT_HOMEWORK =
     [([21028, 26029, 24773, 32490, 21608, 26399],
       [26368, 39640, 36830, 25203, 25968, 37327, 65292, 28072, 20572, 20010, 32929, 25968, 37327, 65292, 36300, 20572, 20010, 32929, 25968, 37327]),
      ([21028, 26029, 25919, 31574, 38754], []),
      ([21028, 26029, 26495, 22359], [])]"

definition DEFAULT_PLANS :: "(jsstring \<times> jsstring) list" where
  "DEFAULT_PLANS =
     [([20505, 36873, 32929, 31080], []),
      ([20080, 28857, 35745, 21010], []),
      ([21334, 20986, 35745, 21010], [])]"

record preset =
  preset_index :: int
  isSelected :: bool

text \<open>
  A UserSettings document; the collection is keyed by \<^verbatim>\<open>userId\<close> (unique). The pre-save
  hook sets \<^verbatim>\<open>updatedAt\<close>. \<^verbatim>\<open>createdAt\<close> is left out: no route reads or writes it. The
  schema's validators are not modelled: no route saves a title that is empty.
\<close>

record user_settings =
  presetPrinciples :: "preset list"
  customPrinciples :: "jsstring list"
  tradingHomework :: "item list"
  tradingPlans :: "item list"
  updatedAt :: int

record settings_db =
  docs :: "nat \<rightharpoonup> user_settings"
  nextId :: nat

text \<open>\<^verbatim>\<open>settings.save()\<close> of the document of user \<open>uid\<close>, at time \<open>now\<close>.\<close>

definition saveSettings :: "nat \<Rightarrow> int \<Rightarrow> user_settings \<Rightarrow> settings_db \<Rightarrow> settings_db" where
  "saveSettings uid now settings db = db\<lparr>docs := (docs db)(uid \<mapsto> settings\<lparr>updatedAt := now\<rparr>)\<rparr>"

text \<open>
  \<^verbatim>\<open>new UserSettings({ userId, tradingHomework: DEFAULT_HOMEWORK, tradingPlans: DEFAULT_PLANS })\<close>
  with the schema's defaults for the principles. It uses six identifiers.
\<close>

definition newUserSettings :: "int \<Rightarrow> settings_db \<Rightarrow> user_settings \<times> settings_db" where
  "newUserSettings now db =
     (\<lparr>presetPrinciples = [\<lparr>preset_index = 0, isSelected = True\<rparr>],
       customPrinciples = [],
       tradingHomework = castItems (nextId db) DEFAULT_HOMEWORK,
       tradingPlans = castItems (nextId db + length DEFAULT_HOMEWORK) DEFAULT_PLANS,
       updatedAt = now\<rparr>,
      db\<lparr>nextId := nextId db + length DEFAULT_HOMEWORK + length DEFAULT_PLANS\<rparr>)"

text \<open>
  \<^verbatim>\<open>let settings = await UserSettings.findOne({ userId }); if (!settings) settings = new UserSettings(...)\<close>,
  the opening of the routes that create the document when it is missing.
\<close>

definition findOrNew :: "nat \<Rightarrow> int \<Rightarrow> settings_db \<Rightarrow> user_settings \<times> settings_db" where
  "findOrNew uid now db = (case docs db uid of None \<Rightarrow> newUserSettings now db | Some s \<Rightarrow> (s, db))"

datatype settings_data =
    AllSettings "preset list" "jsstring list" "item list" "item list"
  | Principles "preset list" "jsstring list"
  | ItemList "item list"
  | ItemAndList item "item list"

text \<open>\<^verbatim>\<open>router.get('/')\<close>: the settings, created when missing, with empty lists filled.\<close>

definition getSettings :: "nat \<Rightarrow> int \<Rightarrow> settings_db \<Rightarrow> settings_data response \<times> settings_db" where
  "getSettings uid now db =
     (let (settings, db') =
        (case docs db uid of
           None \<Rightarrow> (let (s, db1) = newUserSettings now db in (s\<lparr>updatedAt := now\<rparr>, saveSettings uid now s db1))
         | Some s \<Rightarrow>
             let (s1, db1, needSave1) =
                   (if tradingHomework s = []
                    then (s\<lparr>tradingHomework := castItems (nextId db) DEFAULT_HOMEWORK\<rparr>,
                          db\<lparr>nextId := nextId db + length DEFAULT_HOMEWORK\<rparr>, True)
                    else (s, db, False));
                 (s2, db2, needSave2) =
                   (if tradingPlans s1 = []
                    then (s1\<lparr>tradingPlans := castItems (nextId db1) DEFAULT_PLANS\<rparr>,
                          db1\<lparr>nextId := nextId db1 + length DEFAULT_PLANS\<rparr>, True)
                    else (s1, db1, needSave1))
             in if needSave2 then (s2\<lparr>updatedAt := now\<rparr>, saveSettings uid now s2 db2) else (s2, db2))
      in (\<lparr>code = 200, message = msg_get_ok,
           data = Some (AllSettings (presetPrinciples settings) (customPrinciples settings)
                          (tradingHomework settings) (tradingPlans settings))\<rparr>,
          db'))"

text \<open>
  \<^verbatim>\<open>router.put('/principles')\<close>. A body field that is not an array is \<open>None\<close>.
  \<^verbatim>\<open>customPrinciples.filter(p => p && p.trim())\<close> keeps the strings that are not blank.
\<close>

definition putPrinciples ::
  "nat \<Rightarrow> preset list option \<Rightarrow> jsstring list option \<Rightarrow> int \<Rightarrow> settings_db
     \<Rightarrow> settings_data response \<times> settings_db" where
  "putPrinciples uid body_preset body_custom now db =
     (let (s0, db0) = findOrNew uid now db;
          s1 = (case body_preset of None \<Rightarrow> s0 | Some ps \<Rightarrow> s0\<lparr>presetPrinciples := ps\<rparr>);
          s2 = (case body_custom of None \<Rightarrow> s1
                | Some cs \<Rightarrow> s1\<lparr>customPrinciples := filter (\<lambda>p. trim p \<noteq> []) cs\<rparr>)
      in (\<lparr>code = 200, message = msg_principles_saved,
           data = Some (Principles (presetPrinciples s2) (customPrinciples s2))\<rparr>,
          saveSettings uid now s2 db0))"

text \<open>
  The routes for the homework list and for the plans list have the same text up to the
  name of the list and the messages; \<open>which\<close> says which of the two a definition stands
  for.
\<close>

datatype which = Homework | Plans

fun getList :: "which \<Rightarrow> user_settings \<Rightarrow> item list" where
  "getList Homework s = tradingHomework s"
| "getList Plans s = tradingPlans s"

fun setList :: "which \<Rightarrow> item list \<Rightarrow> user_settings \<Rightarrow> user_settings" where
  "setList Homework l s = s\<lparr>tradingHomework := l\<rparr>"
| "setList Plans l s = s\<lparr>tradingPlans := l\<rparr>"

fun msg_list_saved :: "which \<Rightarrow> jsstring" where
  "msg_list_saved Homework = msg_homework_saved"
| "msg_list_saved Plans = msg_plans_saved"

fun msg_item_added :: "which \<Rightarrow> jsstring" where
  "msg_item_added Homework = msg_homework_added"
| "msg_item_added Plans = msg_plan_added"

fun msg_item_missing :: "which \<Rightarrow> jsstring" where
  "msg_item_missing Homework = msg_homework_missing"
| "msg_item_missing Plans = msg_plan_missing"

fun msg_item_updated :: "which \<Rightarrow> jsstring" where
  "msg_item_updated Homework = msg_homework_updated"
| "msg_item_updated Plans = msg_plan_updated"

fun msg_item_deleted :: "which \<Rightarrow> jsstring" where
  "msg_item_deleted Homework = msg_homework_deleted"
| "msg_item_deleted Plans = msg_plan_deleted"

text \<open>
  \<^verbatim>\<open>router.put('/homework')\<close> and \<^verbatim>\<open>router.put('/plans')\<close>: the list is replaced by the
  submitted one. A body whose list is not an array is \<open>None\<close>.
\<close>

definition putList ::
  "which \<Rightarrow> nat \<Rightarrow> (jsstring option \<times> jsstring option) list option \<Rightarrow> int \<Rightarrow> settings_db
     \<Rightarrow> settings_data response \<times> settings_db" where
  "putList w uid body_list now db =
     (case body_list of
        None \<Rightarrow> (\<lparr>code = 400, message = msg_bad_params, data = None\<rparr>, db)
      | Some xs \<Rightarrow>
          let (s0, db0) = findOrNew uid now db;
              new = submittedItems xs;
              s1 = setList w (castItems (nextId db0) new) s0;
              db1 = db0\<lparr>nextId := nextId db0 + length new\<rparr>
          in (\<lparr>code = 200, message = msg_list_saved w, data = Some (ItemList (getList w s1))\<rparr>,
              saveSettings uid now s1 db1))"

text \<open>\<^verbatim>\<open>router.post('/homework')\<close> and \<^verbatim>\<open>router.post('/plans')\<close>: one item is appended.\<close>

definition postItem ::
  "which \<Rightarrow> nat \<Rightarrow> jsstring option \<Rightarrow> jsstring option \<Rightarrow> int \<Rightarrow> settings_db
     \<Rightarrow> settings_data response \<times> settings_db" where
  "postItem w uid title content now db =
     (if blankTitle title then (\<lparr>code = 400, message = msg_title_empty, data = None\<rparr>, db)
      else
        let (s0, db0) = findOrNew uid now db;
            newItem = castItem (nextId db0) (trim (the title), orEmpty content);
            s1 = setList w (getList w s0 @ [newItem]) s0;
            db1 = db0\<lparr>nextId := nextId db0 + 1\<rparr>
        in (\<lparr>code = 200, message = msg_item_added w,
             data = Some (ItemAndList newItem (getList w s1))\<rparr>,
            saveSettings uid now s1 db1))"

text \<open>\<^verbatim>\<open>router.put('/homework/:id')\<close> and \<^verbatim>\<open>router.put('/plans/:id')\<close>: one item is updated.\<close>

definition putItem ::
  "which \<Rightarrow> nat \<Rightarrow> nat option \<Rightarrow> jsstring option \<Rightarrow> jsstring option \<Rightarrow> int \<Rightarrow> settings_db
     \<Rightarrow> settings_data response \<times> settings_db" where
  "putItem w uid idParam title content now db =
     (if blankTitle title then (\<lparr>code = 400, message = msg_title_empty, data = None\<rparr>, db)
      else
        (case docs db uid of
           None \<Rightarrow> (\<lparr>code = 404, message = msg_settings_missing, data = None\<rparr>, db)
         | Some settings \<Rightarrow>
             (case findItem idParam (getList w settings) of
                None \<Rightarrow> (\<lparr>code = 404, message = msg_item_missing w, data = None\<rparr>, db)
              | Some i \<Rightarrow>
                  let s1 = setList w (assignItem idParam (trim (the title)) (orEmpty content)
                                        (getList w settings)) settings
                  in (\<lparr>code = 200, message = msg_item_updated w,
                       data = Some (ItemAndList
                                (i\<lparr>item_title := trim (trim (the title)), item_content := trim (orEmpty content)\<rparr>)
                                (getList w s1))\<rparr>,
                      saveSettings uid now s1 db))))"

text \<open>\<^verbatim>\<open>router.delete('/homework/:id')\<close> and \<^verbatim>\<open>router.delete('/plans/:id')\<close>.\<close>

definition deleteItem ::
  "which \<Rightarrow> nat \<Rightarrow> nat option \<Rightarrow> int \<Rightarrow> settings_db \<Rightarrow> settings_data response \<times> settings_db" where
  "deleteItem w uid idParam now db =
     (case docs db uid of
        None \<Rightarrow> (\<lparr>code = 404, message = msg_settings_missing, data = None\<rparr>, db)
      | Some settings \<Rightarrow>
          (case findItem idParam (getList w settings) of
             None \<Rightarrow> (\<lparr>code = 404, message = msg_item_missing w, data = None\<rparr>, db)
           | Some i \<Rightarrow>
               let s1 = setList w (pull idParam (getList w settings)) settings
               in (\<lparr>code = 200, message = msg_item_deleted w, data = Some (ItemList (getList w s1))\<rparr>,
                   saveSettings uid now s1 db)))"

text \<open>
  The collections that sequences of requests produce from the empty one, with any start
  of the identifier counter.
\<close>

inductive reachableSettings :: "settings_db \<Rightarrow> bool" where
  init: "reachableSettings \<lparr>docs = Map.empty, nextId = n\<rparr>"
| get: "reachableSettings db \<Longrightarrow> reachableSettings (snd (getSettings uid now db))"
| principles: "reachableSettings db \<Longrightarrow> reachableSettings (snd (putPrinciples uid ps cs now db))"
| put_list: "reachableSettings db \<Longrightarrow> reachableSettings (snd (putList w uid xs now db))"
| post_item: "reachableSettings db \<Longrightarrow> reachableSettings (snd (postItem w uid title content now db))"
| put_item: "reachableSettings db \<Longrightarrow> reachableSettings (snd (putItem w uid idParam title content now db))"
| delete_item: "reachableSettings db \<Longrightarrow> reachableSettings (snd (deleteItem w uid idParam now db))"

section \<open>Daily records (models/DailyRecord.js, routes/daily.js)\<close>

text \<open>Source: src/unnamed/part_002 (the model) and src/routes/daily.js.\<close>

text \<open>
  The messages, in the order of the definitions: the date must be \<^verbatim>\<open>YYYY-MM-DD\<close>; saved;
  added; no record; updated; deleted.
\<close>

definition msg_date_format :: jsstring where
  "msg_date_format = [26085, 26399, 26684, 24335, 38169, 35823, 65292, 24212, 20026, 32, 89, 89, 89, 89, 45, 77, 77, 45, 68, 68]"

definition msg_saved :: jsstring where
  "msg_saved = [20445, 23384, 25104, 21151]"

definition msg_added :: jsstring where
  "msg_added = [28155, 21152, 25104, 21151]"

definition msg_record_missing :: jsstring where
  "msg_record_missing = [35760, 24405, 19981, 23384, 22312]"

definition msg_updated :: jsstring where
  "msg_updated = [26356, 26032, 25104, 21151]"

definition msg_deleted :: jsstring where
  "msg_deleted = [21024, 38500, 25104, 21151]"

text \<open>\<^verbatim>\<open>/^\d{4}-\d{2}-\d{2}$/.test(date)\<close>.\<close>

definition isDigit :: "char \<Rightarrow> bool" where
  "isDigit c = (c \<in> set ''0123456789'')"

definition isDateFormat :: "string \<Rightarrow> bool" where
  "isDateFormat s =
     (length s = 10 \<and> list_all isDigit (take 4 s) \<and> s ! 4 = CHR ''-'' \<and>
      list_all isDigit (take 2 (drop 5 s)) \<and> s ! 7 = CHR ''-'' \<and> list_all isDigit (drop 8 s))"

text \<open>
  A DailyRecord document; the collection is keyed by \<^verbatim>\<open>userId\<close> and \<^verbatim>\<open>date\<close> (unique
  together). \<^verbatim>\<open>reflection\<close> is declared \<^verbatim>\<open>trim: true\<close>; the pre-save hook sets
  \<^verbatim>\<open>updatedAt\<close>. \<^verbatim>\<open>createdAt\<close> is left out.
\<close>

record daily_record =
  daily_tradingPlans :: "item list"
  reflection :: jsstring
  daily_updatedAt :: int

record daily_db =
  records :: "nat \<times> string \<rightharpoonup> daily_record"
  daily_nextId :: nat

definition saveDaily :: "nat \<Rightarrow> string \<Rightarrow> int \<Rightarrow> daily_record \<Rightarrow> daily_db \<Rightarrow> daily_db" where
  "saveDaily uid date now record db =
     db\<lparr>records := (records db)((uid, date) \<mapsto> record\<lparr>daily_updatedAt := now\<rparr>)\<rparr>"

text \<open>
  \<^verbatim>\<open>let record = await DailyRecord.findOne({ userId, date }); if (!record) record = new DailyRecord({ userId, date })\<close>.
\<close>

definition findOrNewDaily :: "nat \<Rightarrow> string \<Rightarrow> int \<Rightarrow> daily_db \<Rightarrow> daily_record" where
  "findOrNewDaily uid date now db =
     (case records db (uid, date) of
        None \<Rightarrow> \<lparr>daily_tradingPlans = [], reflection = [], daily_updatedAt = now\<rparr>
      | Some r \<Rightarrow> r)"

datatype daily_data =
    Day string "item list" jsstring bool
  | Saved string "item list" jsstring
  | PlanAndList item "item list"
  | PlanList "item list"
  | Reflection jsstring

text \<open>\<^verbatim>\<open>router.get('/:date')\<close>; it writes nothing.\<close>

definition getDaily :: "nat \<Rightarrow> string \<Rightarrow> daily_db \<Rightarrow> daily_data response" where
  "getDaily uid date db =
     (if \<not> isDateFormat date then \<lparr>code = 400, message = msg_date_format, data = None\<rparr>
      else
        (case records db (uid, date) of
           None \<Rightarrow> \<lparr>code = 200, message = msg_get_ok, data = Some (Day date [] [] False)\<rparr>
         | Some r \<Rightarrow>
             \<lparr>code = 200, message = msg_get_ok,
              data = Some (Day date (daily_tradingPlans r) (reflection r) True)\<rparr>))"

text \<open>
  \<^verbatim>\<open>router.put('/:date')\<close>. \<open>body_plans\<close> is \<open>None\<close> when \<^verbatim>\<open>tradingPlans\<close> is not an
  array, \<open>body_reflection\<close> is \<open>None\<close> when \<^verbatim>\<open>reflection\<close> is not a string.
\<close>

definition putDaily ::
  "nat \<Rightarrow> string \<Rightarrow> (jsstring option \<times> jsstring option) list option \<Rightarrow> jsstring option \<Rightarrow> int
     \<Rightarrow> daily_db \<Rightarrow> daily_data response \<times> daily_db" where
  "putDaily uid date body_plans body_reflection now db =
     (if \<not> isDateFormat date then (\<lparr>code = 400, message = msg_date_format, data = None\<rparr>, db)
      else
        let r0 = findOrNewDaily uid date now db;
            (r1, db1) =
              (case body_plans of
                 None \<Rightarrow> (r0, db)
               | Some xs \<Rightarrow>
                   (r0\<lparr>daily_tradingPlans := castItems (daily_nextId db) (submittedItems xs)\<rparr>,
                    db\<lparr>daily_nextId := daily_nextId db + length (submittedItems xs)\<rparr>));
            r2 = (case body_reflection of None \<Rightarrow> r1 | Some t \<Rightarrow> r1\<lparr>reflection := trim (trim t)\<rparr>)
        in (\<lparr>code = 200, message = msg_saved,
             data = Some (Saved date (daily_tradingPlans r2) (reflection r2))\<rparr>,
            saveDaily uid date now r2 db1))"

text \<open>\<^verbatim>\<open>router.post('/:date/plan')\<close>.\<close>

definition postPlan ::
  "nat \<Rightarrow> string \<Rightarrow> jsstring option \<Rightarrow> jsstring option \<Rightarrow> int \<Rightarrow> daily_db
     \<Rightarrow> daily_data response \<times> daily_db" where
  "postPlan uid date title content now db =
     (if \<not> isDateFormat date then (\<lparr>code = 400, message = msg_date_format, data = None\<rparr>, db)
      else if blankTitle title then (\<lparr>code = 400, message = msg_title_empty, data = None\<rparr>, db)
      else
        let r0 = findOrNewDaily uid date now db;
            newItem = castItem (daily_nextId db) (trim (the title), orEmpty content);
            r1 = r0\<lparr>daily_tradingPlans := daily_tradingPlans r0 @ [newItem]\<rparr>;
            db1 = db\<lparr>daily_nextId := daily_nextId db + 1\<rparr>
        in (\<lparr>code = 200, message = msg_added,
             data = Some (PlanAndList newItem (daily_tradingPlans r1))\<rparr>,
            saveDaily uid date now r1 db1))"

text \<open>\<^verbatim>\<open>router.put('/:date/plan/:id')\<close>; the date's format is not checked here.\<close>

definition putPlan ::
  "nat \<Rightarrow> string \<Rightarrow> nat option \<Rightarrow> jsstring option \<Rightarrow> jsstring option \<Rightarrow> int \<Rightarrow> daily_db
     \<Rightarrow> daily_data response \<times> daily_db" where
  "putPlan uid date idParam title content now db =
     (if blankTitle title then (\<lparr>code = 400, message = msg_title_empty, data = None\<rparr>, db)
      else
        (case records db (uid, date) of
           None \<Rightarrow> (\<lparr>code = 404, message = msg_record_missing, data = None\<rparr>, db)
         | Some record \<Rightarrow>
             (case findItem idParam (daily_tradingPlans record) of
                None \<Rightarrow> (\<lparr>code = 404, message = msg_plan_missing, data = None\<rparr>, db)
              | Some i \<Rightarrow>
                  let r1 = record\<lparr>daily_tradingPlans :=
                             assignItem idParam (trim (the title)) (orEmpty content) (daily_tradingPlans record)\<rparr>
                  in (\<lparr>code = 200, message = msg_updated,
                       data = Some (PlanAndList
                                (i\<lparr>item_title := trim (trim (the title)), item_content := trim (orEmpty content)\<rparr>)
                                (daily_tradingPlans r1))\<rparr>,
                      saveDaily uid date now r1 db))))"

text \<open>\<^verbatim>\<open>router.delete('/:date/plan/:id')\<close>.\<close>

definition deletePlan ::
  "nat \<Rightarrow> string \<Rightarrow> nat option \<Rightarrow> int \<Rightarrow> daily_db \<Rightarrow> daily_data response \<times> daily_db" where
  "deletePlan uid date idParam now db =
     (case records db (uid, date) of
        None \<Rightarrow> (\<lparr>code = 404, message = msg_record_missing, data = None\<rparr>, db)
      | Some record \<Rightarrow>
          (case findItem idParam (daily_tradingPlans record) of
             None \<Rightarrow> (\<lparr>code = 404, message = msg_plan_missing, data = None\<rparr>, db)
           | Some i \<Rightarrow>
               let r1 = record\<lparr>daily_tradingPlans := pull idParam (daily_tradingPlans record)\<rparr>
               in (\<lparr>code = 200, message = msg_deleted, data = Some (PlanList (daily_tradingPlans r1))\<rparr>,
                   saveDaily uid date now r1 db)))"

text \<open>\<^verbatim>\<open>router.put('/:date/reflection')\<close>.\<close>

definition putReflection ::
  "nat \<Rightarrow> string \<Rightarrow> jsstring option \<Rightarrow> int \<Rightarrow> daily_db \<Rightarrow> daily_data response \<times> daily_db" where
  "putReflection uid date body_reflection now db =
     (if \<not> isDateFormat date then (\<lparr>code = 400, message = msg_date_format, data = None\<rparr>, db)
      else
        let r0 = findOrNewDaily uid date now db;
            r1 = r0\<lparr>reflection := trim (trim (orEmpty body_reflection))\<rparr>
        in (\<lparr>code = 200, message = msg_saved, data = Some (Reflection (reflection r1))\<rparr>,
            saveDaily uid date now r1 db))"

text \<open>
  The collections that sequences of requests produce from the empty one, with any start
  of the identifier counter.
\<close>

inductive reachableDaily :: "daily_db \<Rightarrow> bool" where
  init: "reachableDaily \<lparr>records = Map.empty, daily_nextId = n\<rparr>"
| put_daily: "reachableDaily db \<Longrightarrow> reachableDaily (snd (putDaily uid date xs t now db))"
| post_plan: "reachableDaily db \<Longrightarrow> reachableDaily (snd (postPlan uid date title content now db))"
| put_plan: "reachableDaily db \<Longrightarrow> reachableDaily (snd (putPlan uid date idParam title content now db))"
| delete_plan: "reachableDaily db \<Longrightarrow> reachableDaily (snd (deletePlan uid date idParam now db))"
| put_reflection: "reachableDaily db \<Longrightarrow> reachableDaily (snd (putReflection uid date t now db))"

text \<open>
  The invariant of the lists: a stored item's title is not empty after trimming, and its
  title and content are stored trimmed.
\<close>

definition itemOK :: "item \<Rightarrow> bool" where
  "itemOK i = (trim (item_title i) \<noteq> [] \<and> trim (item_title i) = item_title i
               \<and> trim (item_content i) = item_content i)"

definition docOK :: "user_settings \<Rightarrow> bool" where
  "docOK s = (list_all itemOK (tradingHomework s) \<and> list_all itemOK (tradingPlans s))"

definition settingsOK :: "settings_db \<Rightarrow> bool" where
  "settingsOK db = (\<forall>s \<in> ran (docs db). docOK s)"

definition dailyOK :: "daily_db \<Rightarrow> bool" where
  "dailyOK db = (\<forall>r \<in> ran (records db). list_all itemOK (daily_tradingPlans r))"

text \<open>The title and the content of an item, without its identifier.\<close>

definition titleContent :: "item \<Rightarrow> jsstring \<times> jsstring" where
  "titleContent i = (item_title i, item_content i)"

text \<open>The spec's \<open>NotFound\<close> error: code 404 and no data.\<close>

definition isNotFound :: "'d response \<Rightarrow> bool" where
  "isNotFound resp = (code resp = 404 \<and> data resp = None)"

section \<open>Properties of the SMS verification codes\<close>

lemma sendSmsCode_stores:
  assumes "success (fst (sendSmsCode mock cfg generated reply phone t0 vc))"
  shows "\<exists>c. snd (sendSmsCode mock cfg generated reply phone t0 vc)
             = vc(phone \<mapsto> \<lparr>sms_code = c, expireAt = t0 + 5 * 60 * 1000\<rparr>)"
  using assms
  by (auto simp: sendSmsCode_def split: if_splits sms_reply.splits)

lemma verifySmsCode_success_removes:
  assumes "success (fst (verifySmsCode phone input now vc))"
  shows "snd (verifySmsCode phone input now vc) phone = None"
  using assms
  by (auto simp: verifySmsCode_def split: option.splits if_splits)

lemma verifySmsCode_absent:
  assumes "vc phone = None"
  shows "verifySmsCode phone input now vc = (\<lparr>success = False, sms_message = msg_sms_none\<rparr>, vc)"
  using assms by (simp add: verifySmsCode_def)

lemma verifySmsCode_expired:
  assumes "vc phone = Some e" and "now > expireAt e"
  shows "verifySmsCode phone input now vc
           = (\<lparr>success = False, sms_message = msg_sms_expired\<rparr>, vc(phone := None))"
  using assms by (simp add: verifySmsCode_def)

text \<open>
  C9. Verification codes are single-use and time-limited. Whenever \<open>verifySmsCode\<close>
  succeeds, the entry of that phone is gone from the store, and every further
  \<open>verifySmsCode\<close> for the phone on the resulting store (any code, any time) fails. And
  when \<open>sendSmsCode\<close> has stored a code at time \<open>t0\<close>, a \<open>verifySmsCode\<close> more than
  five minutes (\<open>5 * 60 * 1000\<close> ms) later fails with the expiry message, whatever code
  is presented, and removes the entry.
\<close>

theorem verifySmsCode_single_use_time_limited:
  "(success (fst (verifySmsCode phone input now vc)) \<longrightarrow>
      snd (verifySmsCode phone input now vc) phone = None \<and>
      \<not> success (fst (verifySmsCode phone input' now' (snd (verifySmsCode phone input now vc)))))
   \<and> (success (fst (sendSmsCode mock cfg generated reply phone t0 vc0)) \<and> later > t0 + 5 * 60 * 1000 \<longrightarrow>
      verifySmsCode phone input later (snd (sendSmsCode mock cfg generated reply phone t0 vc0))
        = (\<lparr>success = False, sms_message = msg_sms_expired\<rparr>,
           (snd (sendSmsCode mock cfg generated reply phone t0 vc0))(phone := None)))"
proof (intro conjI impI)
  assume ok: "success (fst (verifySmsCode phone input now vc))"
  show gone: "snd (verifySmsCode phone input now vc) phone = None"
    by (rule verifySmsCode_success_removes [OF ok])
  show "\<not> success (fst (verifySmsCode phone input' now' (snd (verifySmsCode phone input now vc))))"
    using gone by (simp add: verifySmsCode_def)
next
  assume h: "success (fst (sendSmsCode mock cfg generated reply phone t0 vc0)) \<and> later > t0 + 5 * 60 * 1000"
  then obtain c where st: "snd (sendSmsCode mock cfg generated reply phone t0 vc0)
      = vc0(phone \<mapsto> \<lparr>sms_code = c, expireAt = t0 + 5 * 60 * 1000\<rparr>)"
    using sendSmsCode_stores by blast
  show "verifySmsCode phone input later (snd (sendSmsCode mock cfg generated reply phone t0 vc0))
        = (\<lparr>success = False, sms_message = msg_sms_expired\<rparr>,
           (snd (sendSmsCode mock cfg generated reply phone t0 vc0))(phone := None))"
    unfolding st using h by (intro verifySmsCode_expired [where e = "\<lparr>sms_code = c, expireAt = t0 + 5 * 60 * 1000\<rparr>"]) simp_all
qed

text \<open>
  The code sent to 13800000000 in mock mode at time 0 verifies at time 1000 and not a
  second time; at time 300001 it has expired.
\<close>

theorem verifySmsCode_single_use_time_limited_witness:
  "success (fst (verifySmsCode ''13800000000'' ''123456'' 1000
      (snd (sendSmsCode True \<lparr>accessKeyId = None, accessKeySecret = None, signName = [], templateCode = []\<rparr>
              [] RequestError ''13800000000'' 0 Map.empty))))
   \<and> \<not> success (fst (verifySmsCode ''13800000000'' ''123456'' 1001
      (snd (verifySmsCode ''13800000000'' ''123456'' 1000
        (snd (sendSmsCode True \<lparr>accessKeyId = None, accessKeySecret = None, signName = [], templateCode = []\<rparr>
              [] RequestError ''13800000000'' 0 Map.empty))))))
   \<and> success (fst (sendSmsCode True \<lparr>accessKeyId = None, accessKeySecret = None, signName = [], templateCode = []\<rparr>
              [] RequestError ''13800000000'' 0 Map.empty))
   \<and> (300001::int) > 0 + 5 * 60 * 1000
   \<and> fst (verifySmsCode ''13800000000'' ''123456'' 300001
        (snd (sendSmsCode True \<lparr>accessKeyId = None, accessKeySecret = None, signName = [], templateCode = []\<rparr>
              [] RequestError ''13800000000'' 0 Map.empty)))
      = \<lparr>success = False, sms_message = msg_sms_expired\<rparr>"
proof -
  let ?cfg = "\<lparr>accessKeyId = None, accessKeySecret = None, signName = [], templateCode = []\<rparr>"
  let ?vc = "snd (sendSmsCode True ?cfg [] RequestError ''13800000000'' 0 Map.empty)"
  have sent: "success (fst (sendSmsCode True ?cfg [] RequestError ''13800000000'' 0 Map.empty))"
    by (simp add: sendSmsCode_def)
  have ok: "success (fst (verifySmsCode ''13800000000'' ''123456'' 1000 ?vc))"
    by (simp add: sendSmsCode_def verifySmsCode_def)
  have late: "(300001::int) > 0 + 5 * 60 * 1000" by simp
  note inst = verifySmsCode_single_use_time_limited
    [where phone = "''13800000000''" and input = "''123456''" and now = 1000 and vc = ?vc
       and input' = "''123456''" and now' = 1001 and mock = True and cfg = ?cfg
       and generated = "[]" and reply = RequestError and ?t0.0 = 0 and later = 300001
       and ?vc0.0 = Map.empty]
  from inst ok have second: "\<not> success (fst (verifySmsCode ''13800000000'' ''123456'' 1001
      (snd (verifySmsCode ''13800000000'' ''123456'' 1000 ?vc))))"
    by blast
  from inst sent late have expired: "fst (verifySmsCode ''13800000000'' ''123456'' 300001 ?vc)
      = \<lparr>success = False, sms_message = msg_sms_expired\<rparr>"
    by simp
  from ok second sent late expired show ?thesis by blast
qed

section \<open>Properties of the auth middleware\<close>

text \<open>
  C10. A non-empty Authorization header that does not start with \<open>Bearer \<close> is used
  whole as the token: the middleware's outcome on it is its outcome on the same token sent
  with the prefix, and when \<open>jwt.verify\<close> accepts the token (valid signature, not
  expired) the request goes on with the user identity the token carries.
\<close>

theorem authMiddleware_bare_token:
  assumes "token \<noteq> []" and "\<not> startsWith token ''Bearer ''"
  shows "authMiddleware jwt_verify (Some token) = authMiddleware jwt_verify (Some (''Bearer '' @ token))
         \<and> (jwt_verify token = Inr uid \<longrightarrow> authMiddleware jwt_verify (Some token) = Next uid)"
  using assms by (simp add: authMiddleware_def falsy_def startsWith_def Let_def)

theorem authMiddleware_bare_token_witness:
  "''abc.def.ghi'' \<noteq> [] \<and> \<not> startsWith ''abc.def.ghi'' ''Bearer ''
   \<and> (\<lambda>t. if t = ''abc.def.ghi'' then Inr (7::nat) else Inl (JsonWebTokenError [])) ''abc.def.ghi'' = Inr 7
   \<and> authMiddleware (\<lambda>t. if t = ''abc.def.ghi'' then Inr (7::nat) else Inl (JsonWebTokenError []))
        (Some ''Bearer abc.def.ghi'') = Next 7
   \<and> authMiddleware (\<lambda>t. if t = ''abc.def.ghi'' then Inr (7::nat) else Inl (JsonWebTokenError []))
        (Some ''abc.def.ghi'') = Next 7"
proof -
  let ?v = "\<lambda>t. if t = ''abc.def.ghi'' then Inr (7::nat) else Inl (JsonWebTokenError [])"
  have a: "''abc.def.ghi'' \<noteq> []" by simp
  have b: "\<not> startsWith ''abc.def.ghi'' ''Bearer ''" by (simp add: startsWith_def)
  have c: "?v ''abc.def.ghi'' = Inr 7" by simp
  from authMiddleware_bare_token [OF a b, of ?v 7] c
  have d: "authMiddleware ?v (Some ''abc.def.ghi'') = authMiddleware ?v (Some (''Bearer '' @ ''abc.def.ghi''))"
    and e: "authMiddleware ?v (Some ''abc.def.ghi'') = Next 7"
    by blast+
  from d e have f: "authMiddleware ?v (Some ''Bearer abc.def.ghi'') = Next 7" by simp
  from a b c e f show ?thesis by blast
qed

section \<open>Properties of login\<close>




section \<open>Properties of the check-in routes\<close>

subsection \<open>Dates and the streak walk\<close>

lemma digitVal_digitChar: "digitVal (digitChar n) = Some (n mod 10)"
proof -
  have "n mod 10 < 10" by simp
  then have "map_of (zip ''0123456789'' [0..<10]) (''0123456789'' ! (n mod 10)) = Some ([0..<10] ! (n mod 10))"
    by (intro map_of_zip_nth) simp_all
  then show ?thesis by (simp add: digitVal_def digitChar_def)
qed

lemma mod_100_digits: "(n::nat) mod 100 = 10 * (n div 10 mod 10) + n mod 10"
  using mod_mult2_eq[of n 10 10] by simp

lemma mod_10000_digits:
  "(n::nat) mod 10000 = 1000 * (n div 1000 mod 10) + 100 * (n div 100 mod 10) + 10 * (n div 10 mod 10) + n mod 10"
proof -
  have a: "n mod 10000 = 10 * (n div 10 mod 1000) + n mod 10"
    using mod_mult2_eq[of n 10 1000] by simp
  have b: "n div 10 mod 1000 = 10 * (n div 100 mod 100) + n div 10 mod 10"
    using mod_mult2_eq[of "n div 10" 10 100] by (simp add: div_mult2_eq[symmetric])
  have c: "n div 100 mod 100 = 10 * (n div 1000 mod 10) + n div 100 mod 10"
    using mod_mult2_eq[of "n div 100" 10 10] by (simp add: div_mult2_eq[symmetric])
  show ?thesis unfolding a b c by simp
qed

lemma numVal_pad2: "numVal (pad2 n) acc = Some (100 * acc + n mod 100)"
  by (simp add: pad2_def digitVal_digitChar mod_100_digits)

lemma numVal_pad4: "numVal (pad4 n) acc = Some (10000 * acc + n mod 10000)"
  by (simp add: pad4_def digitVal_digitChar mod_10000_digits)

lemma daysInMonth_bounds: "28 \<le> daysInMonth y m \<and> daysInMonth y m \<le> 31"
  by (simp add: daysInMonth_def)

lemma parse_toISODate:
  assumes "validDate (y, m, d)" "0 \<le> y" "y \<le> 9999"
  shows "parseISODate (toISODate (y, m, d)) = Some (y, m, d)"
proof -
  have m: "m mod 100 = m" using assms(1) by (simp add: validDate_def)
  have d: "d mod 100 = d" using assms(1) daysInMonth_bounds[of y m] by (simp add: validDate_def)
  have y: "int (nat y mod 10000) = y" using assms by simp
  have l: "length (pad4 (nat y)) = 4" "length (pad2 m) = 2" "length (pad2 d) = 2"
    by (simp_all add: pad4_def pad2_def)
  show ?thesis
    using assms l by (simp add: parseISODate_def nth_append numVal_pad2 numVal_pad4 m d y)
qed


lemma daysInMonth_12: "daysInMonth y 12 = 31"
  by (simp add: daysInMonth_def)

lemma validDate_prevDay: "validDate c \<Longrightarrow> validDate (prevDay c)"
proof -
  assume v: "validDate c"
  obtain y m d where c: "c = (y, m, d)" by (cases c)
  from v c have b: "1 \<le> m" "m \<le> 12" "1 \<le> d" "d \<le> daysInMonth y m"
    by (simp_all add: validDate_def)
  consider (day) "d > 1" | (month) "d = 1" "m > 1" | (year) "d = 1" "m = 1"
    using b by linarith
  then show ?thesis
  proof cases
    case day
    with b show ?thesis by (auto simp: c validDate_def)
  next
    case month
    with b daysInMonth_bounds[of y "m - 1"] show ?thesis by (auto simp: c validDate_def)
  next
    case year
    then show ?thesis by (simp add: c validDate_def daysInMonth_12)
  qed
qed

lemma nextDay_prevDay:
  assumes "validDate c"
  shows "nextDay (prevDay c) = c"
proof -
  obtain y m d where c: "c = (y, m, d)" by (cases c)
  from assms c have b: "1 \<le> m" "m \<le> 12" "1 \<le> d" "d \<le> daysInMonth y m"
    by (simp_all add: validDate_def)
  consider (day) "d > 1" | (month) "d = 1" "m > 1" | (year) "d = 1" "m = 1"
    using b by linarith
  then show ?thesis
  proof cases
    case day
    with b show ?thesis by (auto simp: c)
  next
    case month
    with b show ?thesis by (auto simp: c)
  next
    case year
    then show ?thesis by (simp add: c daysInMonth_12)
  qed
qed

lemma setDateBack_fixedZone:
  assumes "validDate c" and "- 1440 < off" and "off < 1440"
  shows "setDateBack (fixedZone off) c = prevDay c"
proof (cases "0 \<le> off")
  case True
  with assms have "off div 1440 = 0" "off mod 1440 = off" by simp_all
  then show ?thesis
    by (simp add: setDateBack_def fixedZone_def addMinutes_def shiftDays_def)
next
  case False
  with assms have q: "off div 1440 = - 1"
    by (intro int_div_pos_eq[where r = "off + 1440"]) simp_all
  from False assms have r: "off mod 1440 = off + 1440"
    by (intro int_mod_pos_eq[where q = "- 1"]) simp_all
  show ?thesis
    using nextDay_prevDay [OF validDate_prevDay [OF assms(1)]]
    by (simp add: setDateBack_def fixedZone_def addMinutes_def shiftDays_def q r)
qed

lemma year_prevDay_le: "fst (prevDay c) \<le> fst c"
  by (cases c) simp

lemma year_prevDay_ge:
  assumes "validDate c" "0 \<le> fst c" "c \<noteq> (0, 1, 1)"
  shows "0 \<le> fst (prevDay c)"
proof -
  obtain y m d where c: "c = (y, m, d)" by (cases c)
  from assms c have b: "1 \<le> m" "1 \<le> d" "0 \<le> y" "\<not> (y = 0 \<and> m = 1 \<and> d = 1)"
    by (simp_all add: validDate_def)
  then show ?thesis unfolding c by (simp; linarith)
qed

lemma rank_prevDay:
  assumes "validDate (y, m, d)" "0 \<le> y" "(y, m, d) \<noteq> (0, 1, 1)" "prevDay (y, m, d) = (y', m', d')"
  shows "372 * nat y' + 31 * m' + d' < 372 * nat y + 31 * m + d"
proof -
  from assms have b: "1 \<le> m" "1 \<le> d" "0 \<le> y" "\<not> (y = 0 \<and> m = 1 \<and> d = 1)"
    by (simp_all add: validDate_def)
  consider (day) "d > 1" | (month) "d = 1" "m > 1" | (year) "d = 1" "m = 1"
    using b by linarith
  then show ?thesis
  proof cases
    case day
    with assms(4) show ?thesis by auto
  next
    case month
    with assms(4) daysInMonth_bounds[of y "m - 1"] show ?thesis by auto
  next
    case year
    with b have "1 \<le> y" by simp
    with year assms(4) show ?thesis by auto
  qed
qed

lemma streakLoop_step:
  assumes "validDate c" "0 \<le> fst c" "fst c \<le> 9999" "setDateBack tz c = prevDay c"
  shows "streakLoop tz ds (toISODate c) n =
           (if toISODate c \<in> set ds then streakLoop tz ds (toISODate (prevDay c)) (n + 1)
            else Some (Inr n))"
proof -
  obtain y m d where c: "c = (y, m, d)" by (cases c)
  have "parseISODate (toISODate c) = Some c"
    unfolding c using assms unfolding c by (intro parse_toISODate) simp_all
  then show ?thesis
    by (subst streakLoop.simps) (simp add: assms(4))
qed

lemma streakLoop_walk:
  assumes "validDate (y, m, d)" "0 \<le> y" "y \<le> 9999" "toISODate (0, 1, 1) \<notin> set ds"
      and oneDay: "\<And>c. validDate c \<Longrightarrow> setDateBack tz c = prevDay c"
  shows "\<exists>k. streakLoop tz ds (toISODate (y, m, d)) n = Some (Inr (n + k))
            \<and> (\<forall>i<k. toISODate (daysBack i (y, m, d)) \<in> set ds)
            \<and> toISODate (daysBack k (y, m, d)) \<notin> set ds"
  using assms(1-4)
proof (induction "372 * nat y + 31 * m + d" arbitrary: y m d n rule: less_induct)
  case less
  let ?c = "(y, m, d)"
  show ?case
  proof (cases "toISODate ?c \<in> set ds")
    case False
    then have "streakLoop tz ds (toISODate ?c) n = Some (Inr n)"
      using streakLoop_step[where c = ?c and ds = ds and n = n and tz = tz] oneDay less.prems by simp
    with False show ?thesis
      by (intro exI[of _ 0]) (simp add: daysBack_def)
  next
    case True
    then have ne: "?c \<noteq> (0, 1, 1)" using less.prems(4) by auto
    obtain y' m' d' where p: "prevDay ?c = (y', m', d')" by (cases "prevDay ?c")
    have v': "validDate (y', m', d')" using validDate_prevDay[OF less.prems(1)] p by simp
    have y0: "0 \<le> y'" using year_prevDay_ge[OF less.prems(1) _ ne] less.prems(2) p by simp
    have y9: "y' \<le> 9999" using year_prevDay_le[of ?c] less.prems(3) p by simp
    have r: "372 * nat y' + 31 * m' + d' < 372 * nat y + 31 * m + d"
      by (rule rank_prevDay[OF less.prems(1,2) ne p])
    from less.hyps[OF r v' y0 y9 less.prems(4), where n = "n + 1"]
    obtain k where k: "streakLoop tz ds (toISODate (y', m', d')) (n + 1) = Some (Inr (n + 1 + k))"
      "\<forall>i<k. toISODate (daysBack i (y', m', d')) \<in> set ds"
      "toISODate (daysBack k (y', m', d')) \<notin> set ds" by blast
    have step: "streakLoop tz ds (toISODate ?c) n = streakLoop tz ds (toISODate (y', m', d')) (n + 1)"
      using streakLoop_step[where c = ?c and ds = ds and n = n and tz = tz] oneDay less.prems True p by simp
    have shift: "\<And>i. daysBack (Suc i) ?c = daysBack i (y', m', d')"
      unfolding daysBack_def p[symmetric] by (simp add: funpow_swap1)
    have all: "\<forall>i<Suc k. toISODate (daysBack i ?c) \<in> set ds"
    proof (intro allI impI)
      fix i assume "i < Suc k"
      then show "toISODate (daysBack i ?c) \<in> set ds"
        using True k(2) shift by (cases i) (simp_all add: daysBack_def)
    qed
    show ?thesis
      using step k(1,3) all shift by (intro exI[of _ "Suc k"]) simp
  qed
qed

lemma streakSpec_unique:
  assumes "streakSpec has today n" "streakSpec has today n'"
  shows "n = n'"
proof (cases "\<not> has today \<and> \<not> has (prevDay today)")
  case True
  with assms show ?thesis by (simp add: streakSpec_def)
next
  case False
  define start where "start = (if has today then today else prevDay today)"
  from assms(1) False have a: "\<forall>i<n. has (daysBack i start)" "\<not> has (daysBack n start)"
    unfolding streakSpec_def start_def Let_def by presburger+
  from assms(2) False have b: "\<forall>i<n'. has (daysBack i start)" "\<not> has (daysBack n' start)"
    unfolding streakSpec_def start_def Let_def by presburger+
  from a b show ?thesis by (meson linorder_neqE_nat)
qed

lemma set_checkInDates:
  "set (map ci_date (rev (sort_key ci_date (filter (\<lambda>r. ci_userId r = uid) checkIns))))
     = ci_date ` {r \<in> set checkIns. ci_userId r = uid}"
  by auto

lemma mem_checkInDates:
  "toISODate day \<in> set (map ci_date (rev (sort_key ci_date (filter (\<lambda>r. ci_userId r = uid) checkIns))))
     \<longleftrightarrow> hasRecord checkIns uid day"
  unfolding set_checkInDates hasRecord_def by (auto simp: image_iff)

lemma toISODate_2024_01:
  "toISODate (2024, 1, 12) = ''2024-01-12''" "toISODate (2024, 1, 11) = ''2024-01-11''"
  "toISODate (2024, 1, 10) = ''2024-01-10''" "toISODate (2024, 1, 9) = ''2024-01-09''"
  "toISODate (0, 1, 1) = ''0000-01-01''"
  by (simp_all add: pad4_def pad2_def digitChar_def)

lemma streakSpecI:
  assumes "has today \<or> has (prevDay today)"
      and "\<And>i. i < n \<Longrightarrow> has (daysBack i (if has today then today else prevDay today))"
      and "\<not> has (daysBack n (if has today then today else prevDay today))"
  shows "streakSpec has today n"
  using assms unfolding streakSpec_def Let_def by auto

text \<open>
  In a time zone in which \<open>setDateBack\<close> takes every date to the day before, as every
  zone of constant offset does, the streak that \<open>computeStats\<close> returns is the reference
  walk, for a clock in the years 1 to 9999 and a history without a record dated
  0000-01-01 (every day of the walk then prints as \<^verbatim>\<open>YYYY-MM-DD\<close>); there the loop
  returns.
\<close>

lemma computeStats_streak_day_steps:
  assumes "validDate (utcDate now)" and "1 \<le> fst (utcDate now)" and "fst (utcDate now) \<le> 9999"
      and "\<not> hasRecord checkIns uid (0, 1, 1)"
      and oneDay: "\<And>c. validDate c \<Longrightarrow> setDateBack (timeZone now) c = prevDay c"
  shows "\<exists>resp d. computeStats uid now checkIns = Some resp \<and> code resp = 200 \<and> data resp = Some d
            \<and> streakSpec (hasRecord checkIns uid) (utcDate now) (streak d)"
proof -
  let ?ds = "map ci_date (rev (sort_key ci_date (filter (\<lambda>r. ci_userId r = uid) checkIns)))"
  let ?has = "hasRecord checkIns uid"
  let ?today = "utcDate now"
  have mem: "\<And>day. toISODate day \<in> set ?ds \<longleftrightarrow> ?has day" by (rule mem_checkInDates)
  have no0: "toISODate (0, 1, 1) \<notin> set ?ds" using assms(4) mem by blast
  show ?thesis
  proof (cases "\<not> ?has ?today \<and> \<not> ?has (prevDay ?today)")
    case True
    then show ?thesis
      unfolding computeStats_def Let_def mem streakSpec_def by simp
  next
    case False
    define start where "start = (if ?has ?today then ?today else prevDay ?today)"
    obtain y m d where s: "start = (y, m, d)" by (cases start)
    have v: "validDate start" unfolding start_def using assms(1) validDate_prevDay by simp
    have y0: "0 \<le> fst start"
      unfolding start_def using assms(1,2) year_prevDay_ge[of ?today] by (cases ?today) auto
    have y9: "fst start \<le> 9999"
      unfolding start_def using assms(3) year_prevDay_le[of ?today] by auto
    from streakLoop_walk[where y = y and m = m and d = d and ds = ?ds and n = 0 and tz = "timeZone now"]
      v y0 y9 no0 s oneDay
    obtain k where k: "streakLoop (timeZone now) ?ds (toISODate start) 0 = Some (Inr k)"
      "\<forall>i<k. toISODate (daysBack i start) \<in> set ?ds"
      "toISODate (daysBack k start) \<notin> set ?ds" by auto
    have start_str: "(if toISODate ?today \<in> set ?ds then toISODate ?today else toISODate (prevDay ?today))
        = toISODate start"
      unfolding start_def mem by simp
    have cond: "toISODate ?today \<in> set ?ds \<or> toISODate (prevDay ?today) \<in> set ?ds"
      using False unfolding mem by blast
    have spec: "streakSpec ?has ?today k"
      using False k(2,3) unfolding streakSpec_def Let_def mem start_def[symmetric] by auto
    show ?thesis
      unfolding computeStats_def Let_def using cond spec
      by (simp only: if_True start_str k(1)) simp
  qed
qed


text \<open>
  The specification's scenario, in a zone five hours west of UTC: records on 2024-01-10,
  11 and 12 with today 2024-01-12 give streak 3, and without the record of 2024-01-11 the
  streak is 1.
\<close>

lemma computeStats_streak_scenario:
  "(\<exists>resp d. computeStats 7 \<lparr>getFullYear = 2024, getMonth = 0, utcDate = (2024, 1, 12), timeZone = fixedZone (- 300)\<rparr>
        [\<lparr>ci_id = 1, ci_userId = 7, ci_date = ''2024-01-10'', ci_type = ''completed'', ci_isCompleted = True,
           ci_incompleteTasks = [], ci_note = []\<rparr>,
         \<lparr>ci_id = 2, ci_userId = 7, ci_date = ''2024-01-11'', ci_type = ''incomplete'', ci_isCompleted = False,
           ci_incompleteTasks = [], ci_note = []\<rparr>,
         \<lparr>ci_id = 3, ci_userId = 7, ci_date = ''2024-01-12'', ci_type = ''completed'', ci_isCompleted = True,
           ci_incompleteTasks = [], ci_note = []\<rparr>] = Some resp \<and> data resp = Some d \<and> streak d = 3)
   \<and> (\<exists>resp d. computeStats 7 \<lparr>getFullYear = 2024, getMonth = 0, utcDate = (2024, 1, 12), timeZone = fixedZone (- 300)\<rparr>
        [\<lparr>ci_id = 1, ci_userId = 7, ci_date = ''2024-01-10'', ci_type = ''completed'', ci_isCompleted = True,
           ci_incompleteTasks = [], ci_note = []\<rparr>,
         \<lparr>ci_id = 3, ci_userId = 7, ci_date = ''2024-01-12'', ci_type = ''completed'', ci_isCompleted = True,
           ci_incompleteTasks = [], ci_note = []\<rparr>] = Some resp \<and> data resp = Some d \<and> streak d = 1)"
proof -
  let ?r10 = "\<lparr>ci_id = 1, ci_userId = 7, ci_date = ''2024-01-10'', ci_type = ''completed'', ci_isCompleted = True,
           ci_incompleteTasks = [], ci_note = []\<rparr>"
  let ?r11 = "\<lparr>ci_id = 2, ci_userId = 7, ci_date = ''2024-01-11'', ci_type = ''incomplete'', ci_isCompleted = False,
           ci_incompleteTasks = [], ci_note = []\<rparr>"
  let ?r12 = "\<lparr>ci_id = 3, ci_userId = 7, ci_date = ''2024-01-12'', ci_type = ''completed'', ci_isCompleted = True,
           ci_incompleteTasks = [], ci_note = []\<rparr>"
  let ?now = "\<lparr>getFullYear = 2024, getMonth = 0, utcDate = (2024, 1, 12), timeZone = fixedZone (- 300)\<rparr>"
  let ?A = "[?r10, ?r11, ?r12]"
  let ?B = "[?r10, ?r12]"
  have v: "validDate (utcDate ?now)" by (simp add: validDate_def daysInMonth_def)
  have y1: "1 \<le> fst (utcDate ?now)" and y9: "fst (utcDate ?now) \<le> 9999" by simp_all
  have hA: "hasRecord ?A 7 (2024, 1, 12)" "hasRecord ?A 7 (2024, 1, 11)" "hasRecord ?A 7 (2024, 1, 10)"
    "\<not> hasRecord ?A 7 (2024, 1, 9)" "\<not> hasRecord ?A 7 (0, 1, 1)"
    unfolding hasRecord_def toISODate_2024_01 by simp_all
  have hB: "hasRecord ?B 7 (2024, 1, 12)" "\<not> hasRecord ?B 7 (2024, 1, 11)" "\<not> hasRecord ?B 7 (0, 1, 1)"
    unfolding hasRecord_def toISODate_2024_01 by simp_all
  have bk: "daysBack 0 (2024, 1, 12) = (2024, 1, 12)" "daysBack 1 (2024, 1, 12) = (2024, 1, 11)"
    "daysBack 2 (2024, 1, 12) = (2024, 1, 10)" "daysBack 3 (2024, 1, 12) = (2024, 1, 9)"
    by (simp_all add: daysBack_def eval_nat_numeral)
  have specA: "streakSpec (hasRecord ?A 7) (utcDate ?now) 3"
  proof (rule streakSpecI)
    show "hasRecord ?A 7 (utcDate ?now) \<or> hasRecord ?A 7 (prevDay (utcDate ?now))" using hA(1) by simp
    show "\<not> hasRecord ?A 7 (daysBack 3 (if hasRecord ?A 7 (utcDate ?now) then utcDate ?now else prevDay (utcDate ?now)))"
      using hA bk by simp
    fix i :: nat assume "i < 3"
    then consider "i = 0" | "i = 1" | "i = 2" by linarith
    then show "hasRecord ?A 7 (daysBack i (if hasRecord ?A 7 (utcDate ?now) then utcDate ?now else prevDay (utcDate ?now)))"
      using hA bk by cases simp_all
  qed
  have specB: "streakSpec (hasRecord ?B 7) (utcDate ?now) 1"
  proof (rule streakSpecI)
    show "hasRecord ?B 7 (utcDate ?now) \<or> hasRecord ?B 7 (prevDay (utcDate ?now))" using hB(1) by simp
    show "\<not> hasRecord ?B 7 (daysBack 1 (if hasRecord ?B 7 (utcDate ?now) then utcDate ?now else prevDay (utcDate ?now)))"
      using hB bk by simp
    fix i :: nat assume "i < 1"
    then have "i = 0" by simp
    then show "hasRecord ?B 7 (daysBack i (if hasRecord ?B 7 (utcDate ?now) then utcDate ?now else prevDay (utcDate ?now)))"
      using hB bk by simp
  qed
  have oneDay: "\<And>c. validDate c \<Longrightarrow> setDateBack (timeZone ?now) c = prevDay c"
    by (simp add: setDateBack_fixedZone)
  from computeStats_streak_day_steps [OF v y1 y9 hA(5) oneDay]
  obtain ra da where a: "computeStats 7 ?now ?A = Some ra" "data ra = Some da"
    "streakSpec (hasRecord ?A 7) (utcDate ?now) (streak da)" by blast
  from computeStats_streak_day_steps [OF v y1 y9 hB(3) oneDay]
  obtain rb db where b: "computeStats 7 ?now ?B = Some rb" "data rb = Some db"
    "streakSpec (hasRecord ?B 7) (utcDate ?now) (streak db)" by blast
  have "streak da = 3" by (rule streakSpec_unique [OF a(3) specA])
  with a have A: "\<exists>resp d. computeStats 7 ?now ?A = Some resp \<and> data resp = Some d \<and> streak d = 3" by blast
  have "streak db = 1" by (rule streakSpec_unique [OF b(3) specB])
  with b have B: "\<exists>resp d. computeStats 7 ?now ?B = Some resp \<and> data resp = Some d \<and> streak d = 1" by blast
  from A B show ?thesis by (rule conjI)
qed

lemma toISODate_2024_10:
  "toISODate (2024, 10, 28) = ''2024-10-28''" "toISODate (2024, 10, 27) = ''2024-10-27''"
  "toISODate (2024, 10, 26) = ''2024-10-26''" "toISODate (2024, 10, 25) = ''2024-10-25''"
  by (simp_all add: pad4_def pad2_def digitChar_def)

lemma parseISODate_2024_10:
  "parseISODate ''2024-10-28'' = Some (2024, 10, 28)" "parseISODate ''2024-10-26'' = Some (2024, 10, 26)"
proof -
  have "parseISODate (toISODate (2024, 10, 28)) = Some (2024, 10, 28)"
    by (rule parse_toISODate) (simp_all add: validDate_def daysInMonth_def)
  then show "parseISODate ''2024-10-28'' = Some (2024, 10, 28)" by (simp only: toISODate_2024_10)
  have "parseISODate (toISODate (2024, 10, 26)) = Some (2024, 10, 26)"
    by (rule parse_toISODate) (simp_all add: validDate_def daysInMonth_def)
  then show "parseISODate ''2024-10-26'' = Some (2024, 10, 26)" by (simp only: toISODate_2024_10)
qed

lemma setDateBack_berlin_fall_back:
  "setDateBack europeBerlin2024 (2024, 10, 28) = (2024, 10, 26)"
  "setDateBack europeBerlin2024 (2024, 10, 26) = (2024, 10, 25)"
  by (simp_all add: setDateBack_def europeBerlin2024_def minuteStamp_def addMinutes_def shiftDays_def
      daysInMonth_def)

lemma streakLoop_berlin:
  "streakLoop europeBerlin2024 [''2024-10-28'', ''2024-10-26''] ''2024-10-28'' 0 = Some (Inr 2)"
proof -
  let ?ds = "[''2024-10-28'', ''2024-10-26'']"
  have c: "\<And>n. streakLoop europeBerlin2024 ?ds ''2024-10-25'' n = Some (Inr n)"
    by (subst streakLoop.simps) simp
  have b: "\<And>n. streakLoop europeBerlin2024 ?ds ''2024-10-26'' n = Some (Inr (n + 1))"
    by (subst streakLoop.simps)
       (simp add: parseISODate_2024_10 setDateBack_berlin_fall_back toISODate_2024_10 c del: toISODate.simps)
  show ?thesis
    by (subst streakLoop.simps)
       (simp add: parseISODate_2024_10 setDateBack_berlin_fall_back toISODate_2024_10 b del: toISODate.simps)
qed

lemma streakSpec_dst:
  "streakSpec (hasRecord
        [\<lparr>ci_id = 1, ci_userId = 7, ci_date = ''2024-10-26'', ci_type = ''completed'', ci_isCompleted = True,
           ci_incompleteTasks = [], ci_note = []\<rparr>,
         \<lparr>ci_id = 2, ci_userId = 7, ci_date = ''2024-10-28'', ci_type = ''completed'', ci_isCompleted = True,
           ci_incompleteTasks = [], ci_note = []\<rparr>] 7) (2024, 10, 28) 1"
proof (rule streakSpecI)
  let ?db = "[\<lparr>ci_id = 1, ci_userId = 7, ci_date = ''2024-10-26'', ci_type = ''completed'', ci_isCompleted = True,
           ci_incompleteTasks = [], ci_note = []\<rparr>,
         \<lparr>ci_id = 2, ci_userId = 7, ci_date = ''2024-10-28'', ci_type = ''completed'', ci_isCompleted = True,
           ci_incompleteTasks = [], ci_note = []\<rparr>]"
  have b: "hasRecord ?db 7 (2024, 10, 28)" "\<not> hasRecord ?db 7 (2024, 10, 27)"
    unfolding hasRecord_def toISODate_2024_10 by simp_all
  show "hasRecord ?db 7 (2024, 10, 28) \<or> hasRecord ?db 7 (prevDay (2024, 10, 28))" using b by simp
  show "\<not> hasRecord ?db 7 (daysBack 1 (if hasRecord ?db 7 (2024, 10, 28) then (2024, 10, 28) else prevDay (2024, 10, 28)))"
    using b by (simp add: daysBack_def)
  fix i :: nat assume "i < 1"
  then have "i = 0" by simp
  then show "hasRecord ?db 7 (daysBack i (if hasRecord ?db 7 (2024, 10, 28) then (2024, 10, 28) else prevDay (2024, 10, 28)))"
    using b by (simp add: daysBack_def)
qed

text \<open>
  C1. The claim is right about the walk and the code misses it in a time zone with
  daylight saving: \<^verbatim>\<open>setDate(getDate() - 1)\<close> steps back one local day, which is 25 hours
  across the end of summer time, and \<^verbatim>\<open>toISOString()\<close> prints the UTC date of the
  result, two days before the cursor. With the process in Central European time, today
  2024-10-28 and records of user 7 on 2024-10-26 and 2024-10-28, the cursor goes from
  2024-10-28 to 2024-10-26 and \<open>computeStats\<close> returns streak 2. Today has a record and
  yesterday, 2024-10-27, has none, so the reference walk stops after one day: the streak
  of the claim is 1 (\<open>streakSpec_dst\<close> above).
\<close>

theorem computeStats_streak_dst:
  "map_option (\<lambda>resp. map_option streak (data resp))
     (computeStats 7 \<lparr>getFullYear = 2024, getMonth = 9, utcDate = (2024, 10, 28), timeZone = europeBerlin2024\<rparr>
        [\<lparr>ci_id = 1, ci_userId = 7, ci_date = ''2024-10-26'', ci_type = ''completed'', ci_isCompleted = True,
           ci_incompleteTasks = [], ci_note = []\<rparr>,
         \<lparr>ci_id = 2, ci_userId = 7, ci_date = ''2024-10-28'', ci_type = ''completed'', ci_isCompleted = True,
           ci_incompleteTasks = [], ci_note = []\<rparr>])
     = Some (Some 2)
   \<and> hasRecord
        [\<lparr>ci_id = 1, ci_userId = 7, ci_date = ''2024-10-26'', ci_type = ''completed'', ci_isCompleted = True,
           ci_incompleteTasks = [], ci_note = []\<rparr>,
         \<lparr>ci_id = 2, ci_userId = 7, ci_date = ''2024-10-28'', ci_type = ''completed'', ci_isCompleted = True,
           ci_incompleteTasks = [], ci_note = []\<rparr>] 7 (2024, 10, 28)
   \<and> prevDay (2024, 10, 28) = (2024, 10, 27)
   \<and> \<not> hasRecord
        [\<lparr>ci_id = 1, ci_userId = 7, ci_date = ''2024-10-26'', ci_type = ''completed'', ci_isCompleted = True,
           ci_incompleteTasks = [], ci_note = []\<rparr>,
         \<lparr>ci_id = 2, ci_userId = 7, ci_date = ''2024-10-28'', ci_type = ''completed'', ci_isCompleted = True,
           ci_incompleteTasks = [], ci_note = []\<rparr>] 7 (2024, 10, 27)"
proof -
  let ?now = "\<lparr>getFullYear = 2024, getMonth = 9, utcDate = (2024, 10, 28), timeZone = europeBerlin2024\<rparr>"
  let ?r26 = "\<lparr>ci_id = 1, ci_userId = 7, ci_date = ''2024-10-26'', ci_type = ''completed'', ci_isCompleted = True,
           ci_incompleteTasks = [], ci_note = []\<rparr>"
  let ?r28 = "\<lparr>ci_id = 2, ci_userId = 7, ci_date = ''2024-10-28'', ci_type = ''completed'', ci_isCompleted = True,
           ci_incompleteTasks = [], ci_note = []\<rparr>"
  have ds: "map ci_date (rev (sort_key ci_date (filter (\<lambda>r. ci_userId r = 7) [?r26, ?r28])))
      = [''2024-10-28'', ''2024-10-26'']" by simp
  have a: "map_option (\<lambda>resp. map_option streak (data resp)) (computeStats 7 ?now [?r26, ?r28]) = Some (Some 2)"
    unfolding computeStats_def Let_def ds
    by (simp add: toISODate_2024_10 streakLoop_berlin del: toISODate.simps)
  have b: "hasRecord [?r26, ?r28] 7 (2024, 10, 28)" "\<not> hasRecord [?r26, ?r28] 7 (2024, 10, 27)"
    unfolding hasRecord_def toISODate_2024_10 by simp_all
  have c: "prevDay (2024, 10, 28) = (2024, 10, 27)" by simp
  from a b c show ?thesis by (intro conjI)
qed

subsection \<open>Recording a check-in\<close>

lemma recordCheckIn_appends:
  "snd (recordCheckIn uid body now oid checkIns) = checkIns \<or>
   (\<exists>r. snd (recordCheckIn uid body now oid checkIns) = checkIns @ [r]
        \<and> fst (recordCheckIn uid body now oid checkIns)
            = \<lparr>code = 200,
               message = (if ci_type r = ''completed'' then msg_checkin_completed else msg_checkin_incomplete),
               data = Some (CheckIn (view r))\<rparr>
        \<and> ci_userId r = uid \<and> ci_date r = checkInDateOf body now
        \<and> (ci_type r = ''completed'' \<or> ci_type r = ''incomplete'')
        \<and> ci_isCompleted r = (ci_type r = ''completed'')
        \<and> findOneCheckIn checkIns uid (checkInDateOf body now) = None)"
  by (auto simp: recordCheckIn_def Let_def saveCheckIn_def split: option.splits)

text \<open>
  C4. Every stored check-in has \<open>isCompleted\<close> true exactly when its type is
  \<open>completed\<close>: in every collection that a sequence of requests builds from the empty one,
  and for the record that a single \<open>recordCheckIn\<close> adds to any collection. A request
  leaves the records that were there as they were: the new collection is the old one,
  followed by at most the new record.
\<close>

theorem isCompleted_invariant:
  "(reachableCheckIns checkIns \<longrightarrow>
      (\<forall>r \<in> set checkIns. ci_isCompleted r = (ci_type r = ''completed'')))
   \<and> (\<exists>rs. snd (recordCheckIn uid body now oid cs) = cs @ rs
            \<and> (\<forall>r \<in> set rs. ci_isCompleted r = (ci_type r = ''completed'')))"
proof (intro conjI impI)
  assume "reachableCheckIns checkIns"
  then show "\<forall>r \<in> set checkIns. ci_isCompleted r = (ci_type r = ''completed'')"
  proof (induction rule: reachableCheckIns.induct)
    case empty
    show ?case by simp
  next
    case (post checkIns uid body now oid)
    from recordCheckIn_appends[of uid body now oid checkIns] post.IH
    show ?case by auto
  qed
next
  from recordCheckIn_appends[of uid body now oid cs]
  show "\<exists>rs. snd (recordCheckIn uid body now oid cs) = cs @ rs
            \<and> (\<forall>r \<in> set rs. ci_isCompleted r = (ci_type r = ''completed''))"
  proof
    assume "snd (recordCheckIn uid body now oid cs) = cs"
    then show ?thesis by (intro exI[of _ "[]"]) simp
  next
    assume "\<exists>r. snd (recordCheckIn uid body now oid cs) = cs @ [r]
        \<and> fst (recordCheckIn uid body now oid cs)
            = \<lparr>code = 200,
               message = (if ci_type r = ''completed'' then msg_checkin_completed else msg_checkin_incomplete),
               data = Some (CheckIn (view r))\<rparr>
        \<and> ci_userId r = uid \<and> ci_date r = checkInDateOf body now
        \<and> (ci_type r = ''completed'' \<or> ci_type r = ''incomplete'')
        \<and> ci_isCompleted r = (ci_type r = ''completed'')
        \<and> findOneCheckIn cs uid (checkInDateOf body now) = None"
    then obtain r where "snd (recordCheckIn uid body now oid cs) = cs @ [r]"
      "ci_isCompleted r = (ci_type r = ''completed'')" by blast
    then show ?thesis by (intro exI[of _ "[r]"]) simp
  qed
qed

theorem isCompleted_invariant_witness:
  "reachableCheckIns
     [\<lparr>ci_id = 1, ci_userId = 7, ci_date = ''2024-01-12'', ci_type = ''incomplete'', ci_isCompleted = False,
        ci_incompleteTasks = [], ci_note = []\<rparr>]
   \<and> ci_isCompleted \<lparr>ci_id = 1, ci_userId = 7, ci_date = ''2024-01-12'', ci_type = ''incomplete'',
                      ci_isCompleted = False, ci_incompleteTasks = [], ci_note = []\<rparr>
       = (ci_type \<lparr>ci_id = 1, ci_userId = 7, ci_date = ''2024-01-12'', ci_type = ''incomplete'',
                     ci_isCompleted = False, ci_incompleteTasks = [], ci_note = []\<rparr> = ''completed'')"
proof -
  let ?body = "\<lparr>body_type = Some ''incomplete'', body_incompleteTasks = None, body_note = None,
                 body_date = Some ''2024-01-12''\<rparr>"
  let ?now = "\<lparr>getFullYear = 2024, getMonth = 0, utcDate = (2024, 1, 12), timeZone = fixedZone 480\<rparr>"
  let ?r = "\<lparr>ci_id = 1, ci_userId = 7, ci_date = ''2024-01-12'', ci_type = ''incomplete'', ci_isCompleted = False,
        ci_incompleteTasks = [], ci_note = []\<rparr>"
  have "snd (recordCheckIn 7 ?body ?now 1 []) = [?r]"
    by (simp add: recordCheckIn_def falsy_def checkInDateOf_def findOneCheckIn_def saveCheckIn_def Let_def)
  with reachableCheckIns.post [OF reachableCheckIns.empty, of 7 ?body ?now 1]
  have r: "reachableCheckIns [?r]" by simp
  from isCompleted_invariant [THEN conjunct1, THEN mp, OF r]
  have "ci_isCompleted ?r = (ci_type ?r = ''completed'')" by (rule bspec) simp
  with r show ?thesis by (rule conjI)
qed

lemma findOneCheckIn_Some_iff:
  "(findOneCheckIn checkIns uid d \<noteq> None) \<longleftrightarrow> (\<exists>r \<in> set checkIns. ci_userId r = uid \<and> ci_date r = d)"
  by (auto simp: findOneCheckIn_def find_None_iff)

text \<open>
  C3, as amended. When a record exists for the user and the date of the call, a
  \<open>recordCheckIn\<close> leaves the collection as it was and answers with code 400. When the
  call's kind is \<open>completed\<close> or \<open>incomplete\<close> the answer is the DuplicateCheckIn error,
  with the existing record; otherwise it is the answer of the kind validation (the
  missing-kind or the invalid-kind message, no data).
\<close>

theorem recordCheckIn_duplicate:
  assumes "\<exists>r \<in> set checkIns. ci_userId r = uid \<and> ci_date r = checkInDateOf body now"
  shows "snd (recordCheckIn uid body now oid checkIns) = checkIns
         \<and> code (fst (recordCheckIn uid body now oid checkIns)) = 400
         \<and> (if body_type body = Some ''completed'' \<or> body_type body = Some ''incomplete''
            then isDuplicateCheckIn (fst (recordCheckIn uid body now oid checkIns))
            else data (fst (recordCheckIn uid body now oid checkIns)) = None
                 \<and> (message (fst (recordCheckIn uid body now oid checkIns)) = msg_type_missing
                      \<or> message (fst (recordCheckIn uid body now oid checkIns)) = msg_type_invalid))"
proof -
  from assms obtain e where e: "findOneCheckIn checkIns uid (checkInDateOf body now) = Some e"
    using findOneCheckIn_Some_iff[of checkIns uid "checkInDateOf body now"] by auto
  show ?thesis
    by (cases "body_type body") (auto simp: recordCheckIn_def Let_def e isDuplicateCheckIn_def falsy_def)
qed

theorem recordCheckIn_duplicate_witness:
  "(\<exists>r \<in> set [\<lparr>ci_id = 1, ci_userId = 7, ci_date = ''2024-01-12'', ci_type = ''incomplete'',
                   ci_isCompleted = False, ci_incompleteTasks = [], ci_note = []\<rparr>].
       ci_userId r = 7 \<and> ci_date r = checkInDateOf
          \<lparr>body_type = Some ''completed'', body_incompleteTasks = None, body_note = None, body_date = None\<rparr>
          \<lparr>getFullYear = 2024, getMonth = 0, utcDate = (2024, 1, 12), timeZone = fixedZone 480\<rparr>)
   \<and> recordCheckIn 7 \<lparr>body_type = Some ''completed'', body_incompleteTasks = None, body_note = None, body_date = None\<rparr>
        \<lparr>getFullYear = 2024, getMonth = 0, utcDate = (2024, 1, 12), timeZone = fixedZone 480\<rparr> 2
        [\<lparr>ci_id = 1, ci_userId = 7, ci_date = ''2024-01-12'', ci_type = ''incomplete'',
                   ci_isCompleted = False, ci_incompleteTasks = [], ci_note = []\<rparr>]
      = (\<lparr>code = 400, message = msg_duplicate, data = Some (ExistingRecord 1 ''2024-01-12'' ''incomplete'')\<rparr>,
         [\<lparr>ci_id = 1, ci_userId = 7, ci_date = ''2024-01-12'', ci_type = ''incomplete'',
                   ci_isCompleted = False, ci_incompleteTasks = [], ci_note = []\<rparr>])
   \<and> isDuplicateCheckIn (fst (recordCheckIn 7 \<lparr>body_type = Some ''completed'', body_incompleteTasks = None, body_note = None, body_date = None\<rparr>
        \<lparr>getFullYear = 2024, getMonth = 0, utcDate = (2024, 1, 12), timeZone = fixedZone 480\<rparr> 2
        [\<lparr>ci_id = 1, ci_userId = 7, ci_date = ''2024-01-12'', ci_type = ''incomplete'',
                   ci_isCompleted = False, ci_incompleteTasks = [], ci_note = []\<rparr>]))"
proof -
  let ?body = "\<lparr>body_type = Some ''completed'', body_incompleteTasks = None, body_note = None, body_date = None\<rparr>"
  let ?now = "\<lparr>getFullYear = 2024, getMonth = 0, utcDate = (2024, 1, 12), timeZone = fixedZone 480\<rparr>"
  let ?r = "\<lparr>ci_id = 1, ci_userId = 7, ci_date = ''2024-01-12'', ci_type = ''incomplete'', ci_isCompleted = False,
        ci_incompleteTasks = [], ci_note = []\<rparr>"
  have d: "checkInDateOf ?body ?now = ''2024-01-12''"
    by (simp add: checkInDateOf_def falsy_def pad4_def pad2_def digitChar_def)
  have ex: "\<exists>r \<in> set [?r]. ci_userId r = 7 \<and> ci_date r = checkInDateOf ?body ?now"
    unfolding d by simp
  have ev: "recordCheckIn 7 ?body ?now 2 [?r]
      = (\<lparr>code = 400, message = msg_duplicate, data = Some (ExistingRecord 1 ''2024-01-12'' ''incomplete'')\<rparr>, [?r])"
    unfolding recordCheckIn_def Let_def d by (simp add: falsy_def findOneCheckIn_def)
  from recordCheckIn_duplicate [OF ex, of 2]
  have "isDuplicateCheckIn (fst (recordCheckIn 7 ?body ?now 2 [?r]))" by simp
  with ex ev show ?thesis by blast
qed

text \<open>
  C3 as stated fails for a call whose kind is not valid: the kind is checked before the
  lookup, so with a record for user 7 on 2024-01-12, a second call for that user and date
  with kind \<open>done\<close> is answered with the invalid-kind message and no existing record,
  not with the DuplicateCheckIn error.
\<close>

theorem recordCheckIn_duplicate_counterexample:
  "findOneCheckIn
     [\<lparr>ci_id = 1, ci_userId = 7, ci_date = ''2024-01-12'', ci_type = ''incomplete'',
        ci_isCompleted = False, ci_incompleteTasks = [], ci_note = []\<rparr>] 7 ''2024-01-12''
     = Some \<lparr>ci_id = 1, ci_userId = 7, ci_date = ''2024-01-12'', ci_type = ''incomplete'',
        ci_isCompleted = False, ci_incompleteTasks = [], ci_note = []\<rparr>
   \<and> fst (recordCheckIn 7
        \<lparr>body_type = Some ''done'', body_incompleteTasks = None, body_note = None, body_date = Some ''2024-01-12''\<rparr>
        \<lparr>getFullYear = 2024, getMonth = 0, utcDate = (2024, 1, 12), timeZone = fixedZone 480\<rparr> 2
        [\<lparr>ci_id = 1, ci_userId = 7, ci_date = ''2024-01-12'', ci_type = ''incomplete'',
           ci_isCompleted = False, ci_incompleteTasks = [], ci_note = []\<rparr>])
     = \<lparr>code = 400, message = msg_type_invalid, data = None\<rparr>
   \<and> \<not> isDuplicateCheckIn (fst (recordCheckIn 7
        \<lparr>body_type = Some ''done'', body_incompleteTasks = None, body_note = None, body_date = Some ''2024-01-12''\<rparr>
        \<lparr>getFullYear = 2024, getMonth = 0, utcDate = (2024, 1, 12), timeZone = fixedZone 480\<rparr> 2
        [\<lparr>ci_id = 1, ci_userId = 7, ci_date = ''2024-01-12'', ci_type = ''incomplete'',
           ci_isCompleted = False, ci_incompleteTasks = [], ci_note = []\<rparr>]))"
  by (simp add: recordCheckIn_def falsy_def findOneCheckIn_def isDuplicateCheckIn_def)


subsection \<open>Listing a month\<close>

lemma between_common_prefix:
  fixes x :: string
  assumes "p @ a \<le> x" and "x \<le> p @ b"
  shows "startsWith x p"
  using assms
proof (induction p arbitrary: x)
  case Nil
  show ?case by (simp add: startsWith_def)
next
  case (Cons c p)
  then obtain d x' where x: "x = d # x'" by (cases x) auto
  from Cons.prems have "c = d" "p @ a \<le> x'" "x' \<le> p @ b" unfolding x by auto
  with Cons.IH[of x'] show ?case unfolding x by (simp add: startsWith_def)
qed

lemma showNat_pad4:
  assumes "1000 \<le> n" and "n \<le> 9999"
  shows "showNat n = pad4 n"
proof -
  have g: "\<not> n < 10" "\<not> n div 10 < 10" "\<not> n div 100 < 10" "n div 1000 < 10"
    using assms by linarith+
  have e: "n div 10 div 10 = n div 100" "n div 100 div 10 = n div 1000"
    by (simp_all add: div_mult2_eq[symmetric])
  have a: "showNat n = showNat (n div 10) @ [digitChar n]"
    by (simp only: showNat.simps[of n] g if_False)
  have b: "showNat (n div 10) = showNat (n div 100) @ [digitChar (n div 10)]"
    by (simp only: showNat.simps[of "n div 10"] g if_False e)
  have c: "showNat (n div 100) = showNat (n div 1000) @ [digitChar (n div 100)]"
    by (simp only: showNat.simps[of "n div 100"] g if_False e)
  have d: "showNat (n div 1000) = [digitChar (n div 1000)]"
    by (simp only: showNat.simps[of "n div 1000"] g if_True)
  show ?thesis by (simp add: a b c d pad4_def)
qed

lemma padStart2_showNat:
  assumes "1 \<le> m" and "m \<le> 12"
  shows "padStart2 (showNat m) = pad2 m"
proof (cases "m < 10")
  case True
  then have "showNat m = [digitChar m]" by (simp only: showNat.simps[of m] if_True)
  moreover have "m div 10 = 0" using True by simp
  ultimately show ?thesis by (simp add: padStart2_def pad2_def digitChar_def)
next
  case False
  then have a: "showNat m = showNat (m div 10) @ [digitChar m]"
    by (simp only: showNat.simps[of m] if_False)
  have "m div 10 < 10" using assms by linarith
  then have "showNat (m div 10) = [digitChar (m div 10)]"
    by (simp only: showNat.simps[of "m div 10"] if_True)
  with a show ?thesis by (simp add: padStart2_def pad2_def)
qed

lemma startDate_format:
  assumes "1000 \<le> year" and "year \<le> 9999" and "1 \<le> month" and "month \<le> 12"
  shows "startDate year month = pad4 (nat year) @ ''-'' @ pad2 (nat month) @ ''-01''
         \<and> endDate year month = pad4 (nat year) @ ''-'' @ pad2 (nat month) @ ''-31''"
proof -
  have y: "showInt year = pad4 (nat year)"
    using assms showNat_pad4[of "nat year"] by (simp add: showInt_def)
  have m: "padStart2 (showInt month) = pad2 (nat month)"
    using assms padStart2_showNat[of "nat month"] by (simp add: showInt_def)
  show ?thesis by (simp add: startDate_def endDate_def y m)
qed

text \<open>
  C2. For a year and a month (safe integers, as the numbers that print in plain decimal,
  and non-zero, so that they are not replaced by the clock's),
  \<open>listMonth\<close> answers 200 with exactly the user's records whose date lies between
  \<open>startDate\<close> (\<^verbatim>\<open>YYYY-MM-01\<close>) and \<open>endDate\<close> (\<^verbatim>\<open>YYYY-MM-31\<close>, whatever the month's
  length) in the order of strings, each as often as it is stored, sorted ascending by
  date; \<open>total\<close> is their number, \<open>completedCount\<close> and \<open>incompleteCount\<close> count the
  completed and the other ones and add up to \<open>total\<close>; and every date listed starts with
  \<^verbatim>\<open>YYYY-MM-\<close>, so none is of another month. For a four-digit year and a month from
  1 to 12 the two bounds are the year in four digits, the month in two and the day 01 or
  31.
\<close>

theorem listMonth_range:
  assumes "year \<noteq> 0" and "month \<noteq> 0" and "isSafeInteger year" and "isSafeInteger month"
  shows "(\<exists>d. listMonth uid (Some year) (Some month) now checkIns
               = \<lparr>code = 200, message = msg_get_ok, data = Some d\<rparr>
          \<and> mset (md_records d)
               = mset (map view (filter (\<lambda>r. ci_userId r = uid \<and> startDate year month \<le> ci_date r
                                              \<and> ci_date r \<le> endDate year month) checkIns))
          \<and> sorted (map v_date (md_records d))
          \<and> md_total d = length (md_records d)
          \<and> md_completedCount d = length (filter v_isCompleted (md_records d))
          \<and> md_incompleteCount d = length (filter (\<lambda>v. \<not> v_isCompleted v) (md_records d))
          \<and> md_completedCount d + md_incompleteCount d = md_total d
          \<and> (\<forall>v \<in> set (md_records d).
                startsWith (v_date v) (showInt year @ ''-'' @ padStart2 (showInt month) @ ''-'')))
         \<and> (1000 \<le> year \<and> year \<le> 9999 \<and> 1 \<le> month \<and> month \<le> 12 \<longrightarrow>
              startDate year month = pad4 (nat year) @ ''-'' @ pad2 (nat month) @ ''-01''
              \<and> endDate year month = pad4 (nat year) @ ''-'' @ pad2 (nat month) @ ''-31'')"
proof -
  let ?sel = "filter (\<lambda>r. ci_userId r = uid \<and> startDate year month \<le> ci_date r
                                              \<and> ci_date r \<le> endDate year month) checkIns"
  let ?rs = "sort_key ci_date ?sel"
  let ?d = "\<lparr>md_year = year, md_month = month, md_total = length ?rs,
             md_completedCount = length (filter (\<lambda>r. ci_isCompleted r) ?rs),
             md_incompleteCount = length (filter (\<lambda>r. \<not> ci_isCompleted r) ?rs),
             md_records = map view ?rs\<rparr>"
  have eq: "listMonth uid (Some year) (Some month) now checkIns
               = \<lparr>code = 200, message = msg_get_ok, data = Some ?d\<rparr>"
    using assms by (simp add: listMonth_def orDefault_def findInRange_def Let_def)
  have m: "mset (md_records ?d) = mset (map view ?sel)" by simp
  have vd: "map v_date (map view ?rs) = map ci_date ?rs" by (simp add: view_def)
  have s: "sorted (map v_date (md_records ?d))" by (simp add: vd del: map_map)
  have t: "md_total ?d = length (md_records ?d)" by simp
  have c1: "md_completedCount ?d = length (filter v_isCompleted (md_records ?d))"
    by (simp add: filter_map comp_def view_def)
  have c2: "md_incompleteCount ?d = length (filter (\<lambda>v. \<not> v_isCompleted v) (md_records ?d))"
    by (simp add: filter_map comp_def view_def)
  have c3: "md_completedCount ?d + md_incompleteCount ?d = md_total ?d"
    by (simp add: sum_length_filter_compl)
  have p: "\<forall>v \<in> set (md_records ?d).
                startsWith (v_date v) (showInt year @ ''-'' @ padStart2 (showInt month) @ ''-'')"
  proof
    fix v assume "v \<in> set (md_records ?d)"
    then obtain r where r: "v = view r" "startDate year month \<le> ci_date r" "ci_date r \<le> endDate year month"
      by auto
    have "startsWith (ci_date r) (showInt year @ ''-'' @ padStart2 (showInt month) @ ''-'')"
      using between_common_prefix[of "showInt year @ ''-'' @ padStart2 (showInt month) @ ''-''" "''01''" "ci_date r" "''31''"]
        r(2,3) by (simp add: startDate_def endDate_def)
    then show "startsWith (v_date v) (showInt year @ ''-'' @ padStart2 (showInt month) @ ''-'')"
      by (simp add: r(1) view_def)
  qed
  have ex: "\<exists>d. listMonth uid (Some year) (Some month) now checkIns
               = \<lparr>code = 200, message = msg_get_ok, data = Some d\<rparr>
          \<and> mset (md_records d)
               = mset (map view (filter (\<lambda>r. ci_userId r = uid \<and> startDate year month \<le> ci_date r
                                              \<and> ci_date r \<le> endDate year month) checkIns))
          \<and> sorted (map v_date (md_records d))
          \<and> md_total d = length (md_records d)
          \<and> md_completedCount d = length (filter v_isCompleted (md_records d))
          \<and> md_incompleteCount d = length (filter (\<lambda>v. \<not> v_isCompleted v) (md_records d))
          \<and> md_completedCount d + md_incompleteCount d = md_total d
          \<and> (\<forall>v \<in> set (md_records d).
                startsWith (v_date v) (showInt year @ ''-'' @ padStart2 (showInt month) @ ''-''))"
    by (rule exI[of _ ?d]) (intro conjI eq m s t c1 c2 c3 p)
  show ?thesis
    using ex startDate_format[of year month] by blast
qed


lemma startDate_2024_2: "startDate 2024 2 = ''2024-02-01''" "endDate 2024 2 = ''2024-02-31''"
  by (simp_all add: startDate_def endDate_def showInt_def showNat.simps padStart2_def digitChar_def)

theorem listMonth_range_witness:
  "(2024::int) \<noteq> 0 \<and> (2::int) \<noteq> 0 \<and> isSafeInteger 2024 \<and> isSafeInteger 2
   \<and> startDate 2024 2 = ''2024-02-01'' \<and> endDate 2024 2 = ''2024-02-31''
   \<and> (\<exists>d. data (listMonth 7 (Some 2024) (Some 2) \<lparr>getFullYear = 2025, getMonth = 5, utcDate = (2025, 6, 1), timeZone = fixedZone 480\<rparr>
        [\<lparr>ci_id = 1, ci_userId = 7, ci_date = ''2024-01-31'', ci_type = ''completed'', ci_isCompleted = True,
           ci_incompleteTasks = [], ci_note = []\<rparr>,
         \<lparr>ci_id = 2, ci_userId = 7, ci_date = ''2024-02-29'', ci_type = ''incomplete'', ci_isCompleted = False,
           ci_incompleteTasks = [], ci_note = []\<rparr>,
         \<lparr>ci_id = 3, ci_userId = 7, ci_date = ''2024-02-01'', ci_type = ''completed'', ci_isCompleted = True,
           ci_incompleteTasks = [], ci_note = []\<rparr>,
         \<lparr>ci_id = 4, ci_userId = 7, ci_date = ''2024-03-01'', ci_type = ''completed'', ci_isCompleted = True,
           ci_incompleteTasks = [], ci_note = []\<rparr>,
         \<lparr>ci_id = 5, ci_userId = 8, ci_date = ''2024-02-10'', ci_type = ''completed'', ci_isCompleted = True,
           ci_incompleteTasks = [], ci_note = []\<rparr>]) = Some d
        \<and> map v_date (md_records d) = [''2024-02-01'', ''2024-02-29'']
        \<and> md_total d = 2 \<and> md_completedCount d + md_incompleteCount d = md_total d)"
proof -
  let ?now = "\<lparr>getFullYear = 2025, getMonth = 5, utcDate = (2025, 6, 1), timeZone = fixedZone 480\<rparr>"
  let ?db = "[\<lparr>ci_id = 1, ci_userId = 7, ci_date = ''2024-01-31'', ci_type = ''completed'', ci_isCompleted = True,
           ci_incompleteTasks = [], ci_note = []\<rparr>,
         \<lparr>ci_id = 2, ci_userId = 7, ci_date = ''2024-02-29'', ci_type = ''incomplete'', ci_isCompleted = False,
           ci_incompleteTasks = [], ci_note = []\<rparr>,
         \<lparr>ci_id = 3, ci_userId = 7, ci_date = ''2024-02-01'', ci_type = ''completed'', ci_isCompleted = True,
           ci_incompleteTasks = [], ci_note = []\<rparr>,
         \<lparr>ci_id = 4, ci_userId = 7, ci_date = ''2024-03-01'', ci_type = ''completed'', ci_isCompleted = True,
           ci_incompleteTasks = [], ci_note = []\<rparr>,
         \<lparr>ci_id = 5, ci_userId = 8, ci_date = ''2024-02-10'', ci_type = ''completed'', ci_isCompleted = True,
           ci_incompleteTasks = [], ci_note = []\<rparr>]"
  have y: "(2024::int) \<noteq> 0" and m: "(2::int) \<noteq> 0" by simp_all
  have sy: "isSafeInteger 2024" and sm: "isSafeInteger 2" by (simp_all add: isSafeInteger_def)
  from listMonth_range [OF y m sy sm, of 7 ?now ?db]
  obtain d where d: "listMonth 7 (Some 2024) (Some 2) ?now ?db = \<lparr>code = 200, message = msg_get_ok, data = Some d\<rparr>"
    "md_completedCount d + md_incompleteCount d = md_total d" by blast
  have ev: "map v_date (md_records (the (data (listMonth 7 (Some 2024) (Some 2) ?now ?db)))) = [''2024-02-01'', ''2024-02-29'']"
    "md_total (the (data (listMonth 7 (Some 2024) (Some 2) ?now ?db))) = 2"
    by (simp_all add: listMonth_def orDefault_def findInRange_def startDate_2024_2 Let_def view_def)
  from d ev have "data (listMonth 7 (Some 2024) (Some 2) ?now ?db) = Some d
        \<and> map v_date (md_records d) = [''2024-02-01'', ''2024-02-29'']
        \<and> md_total d = 2 \<and> md_completedCount d + md_incompleteCount d = md_total d" by simp
  then have "\<exists>d. data (listMonth 7 (Some 2024) (Some 2) ?now ?db) = Some d
        \<and> map v_date (md_records d) = [''2024-02-01'', ''2024-02-29'']
        \<and> md_total d = 2 \<and> md_completedCount d + md_incompleteCount d = md_total d" by (rule exI)
  with startDate_2024_2 sy sm show ?thesis by simp
qed

section \<open>Properties of the settings and daily-record routes\<close>

subsection \<open>Trimming and items\<close>

lemma trim_Nil: "trim [] = []"
  by (simp add: trim_def)

lemma dropWhile_noop: "xs = [] \<or> \<not> P (hd xs) \<Longrightarrow> dropWhile P xs = xs"
  by (cases xs) auto

lemma trim_noop:
  assumes "s \<noteq> []" "\<not> isWhiteSpace (hd s)" "\<not> isWhiteSpace (last s)"
  shows "trim s = s"
proof -
  have a: "dropWhile isWhiteSpace s = s" using assms by (intro dropWhile_noop) simp
  have b: "dropWhile isWhiteSpace (rev s) = rev s"
    using assms by (intro dropWhile_noop) (simp add: hd_rev)
  show ?thesis by (simp add: trim_def a b)
qed

lemma trim_ends:
  assumes "trim s \<noteq> []"
  shows "\<not> isWhiteSpace (hd (trim s)) \<and> \<not> isWhiteSpace (last (trim s))"
proof -
  let ?t = "dropWhile isWhiteSpace s"
  let ?u = "dropWhile isWhiteSpace (rev ?t)"
  have u: "trim s = rev ?u" by (simp add: trim_def)
  from assms u have une: "?u \<noteq> []" by simp
  then have l: "\<not> isWhiteSpace (hd ?u)" by (rule hd_dropWhile)
  have tne: "?t \<noteq> []"
  proof
    assume e: "?t = []"
    have "?u = []" unfolding e by simp
    with une show False by contradiction
  qed
  then have ht: "\<not> isWhiteSpace (hd ?t)" by (rule hd_dropWhile)
  obtain ys where ys: "rev ?t = ys @ ?u" 
    by (metis takeWhile_dropWhile_id)
  then have "?t = rev ?u @ rev ys" by (metis rev_append rev_rev_ident)
  with une have "hd ?t = hd (rev ?u)" by (metis hd_append2 rev_is_Nil_conv)
  with ht have h: "\<not> isWhiteSpace (hd (rev ?u))" by simp
  from l une have "\<not> isWhiteSpace (last (rev ?u))" by (simp add: last_rev)
  with h u show ?thesis by simp
qed

lemma trim_idem: "trim (trim s) = trim s"
proof (cases "trim s = []")
  case True
  then show ?thesis by (simp add: trim_Nil)
next
  case False
  with trim_ends[OF False] show ?thesis by (intro trim_noop) simp_all
qed


lemma itemOK_castItem: "trim (fst tc) \<noteq> [] \<Longrightarrow> itemOK (castItem n tc)"
  by (simp add: itemOK_def castItem_def trim_idem)

lemma itemOK_castItems: "\<forall>tc \<in> set tcs. trim (fst tc) \<noteq> [] \<Longrightarrow> list_all itemOK (castItems n tcs)"
  by (induction tcs arbitrary: n) (simp_all add: itemOK_castItem)

lemma titleContent_castItems:
  "map titleContent (castItems n tcs) = map (\<lambda>tc. (trim (fst tc), trim (snd tc))) tcs"
  by (induction tcs arbitrary: n) (simp_all add: titleContent_def castItem_def)

lemma length_castItems: "length (castItems n tcs) = length tcs"
  by (induction tcs arbitrary: n) simp_all

lemma submittedItems_nonblank: "\<forall>tc \<in> set (submittedItems xs). trim (fst tc) \<noteq> []"
  by (simp add: submittedItems_def)

lemma submittedItems_spec:
  "map (\<lambda>tc. (trim (fst tc), trim (snd tc))) (submittedItems xs)
     = map (\<lambda>x. (trim (orEmpty (fst x)), trim (orEmpty (snd x))))
         (filter (\<lambda>x. trim (orEmpty (fst x)) \<noteq> []) xs)"
  by (induction xs) (simp_all add: submittedItems_def)

lemma trim_DEFAULT_HOMEWORK:
  "map (\<lambda>tc. (trim (fst tc), trim (snd tc))) DEFAULT_HOMEWORK = DEFAULT_HOMEWORK"
  by (simp add: DEFAULT_HOMEWORK_def trim_def isWhiteSpace_def)

lemma trim_DEFAULT_PLANS:
  "map (\<lambda>tc. (trim (fst tc), trim (snd tc))) DEFAULT_PLANS = DEFAULT_PLANS"
  by (simp add: DEFAULT_PLANS_def trim_def isWhiteSpace_def)

lemma DEFAULT_HOMEWORK_nonblank: "\<forall>tc \<in> set DEFAULT_HOMEWORK. trim (fst tc) \<noteq> []"
  by (simp add: DEFAULT_HOMEWORK_def trim_def isWhiteSpace_def)

lemma DEFAULT_PLANS_nonblank: "\<forall>tc \<in> set DEFAULT_PLANS. trim (fst tc) \<noteq> []"
  by (simp add: DEFAULT_PLANS_def trim_def isWhiteSpace_def)

lemma list_all_assignItem:
  assumes "list_all itemOK items" and "trim t \<noteq> []"
  shows "list_all itemOK (assignItem idParam t c items)"
  using assms by (induction items) (auto simp: itemOK_def trim_idem)

lemma list_all_pull: "list_all itemOK items \<Longrightarrow> list_all itemOK (pull idParam items)"
  by (simp add: pull_def list_all_iff)

lemma not_blankTitle: "\<not> blankTitle title \<Longrightarrow> trim (the title) \<noteq> []"
  by (simp add: blankTitle_def)

lemma docOK_setList: "docOK s \<Longrightarrow> list_all itemOK l \<Longrightarrow> docOK (setList w l s)"
  by (cases w) (simp_all add: docOK_def)

lemma docOK_getList: "docOK s \<Longrightarrow> list_all itemOK (getList w s)"
  by (cases w) (simp_all add: docOK_def)

lemma newUserSettings_ok:
  "docOK (fst (newUserSettings now db)) \<and> docs (snd (newUserSettings now db)) = docs db"
  by (simp add: newUserSettings_def docOK_def itemOK_castItems DEFAULT_HOMEWORK_nonblank
      DEFAULT_PLANS_nonblank)

lemma findOrNew_ok:
  assumes "settingsOK db"
  shows "docOK (fst (findOrNew uid now db)) \<and> docs (snd (findOrNew uid now db)) = docs db"
proof (cases "docs db uid")
  case None
  then show ?thesis using newUserSettings_ok[of now db] by (simp add: findOrNew_def)
next
  case (Some s)
  then have "s \<in> ran (docs db)" by (auto simp: ran_def)
  with assms Some show ?thesis by (simp add: findOrNew_def settingsOK_def)
qed

lemma settingsOK_save:
  assumes "settingsOK db" and "docs db' = docs db" and "docOK s"
  shows "settingsOK (saveSettings uid now s db')"
proof -
  have "\<And>x. x \<in> ran ((docs db)(uid \<mapsto> s\<lparr>updatedAt := now\<rparr>)) \<Longrightarrow> docOK x"
  proof -
    fix x assume "x \<in> ran ((docs db)(uid \<mapsto> s\<lparr>updatedAt := now\<rparr>))"
    then have "x = s\<lparr>updatedAt := now\<rparr> \<or> x \<in> ran (docs db)"
      by (auto simp: ran_def split: if_splits)
    with assms(1,3) show "docOK x" by (auto simp: settingsOK_def docOK_def)
  qed
  then show ?thesis by (simp add: settingsOK_def saveSettings_def assms(2))
qed

lemma settingsOK_nextId: "settingsOK (db\<lparr>nextId := n\<rparr>) = settingsOK db"
  by (simp add: settingsOK_def)

subsection \<open>The routes keep the lists well-formed\<close>

lemma getSettings_ok:
  assumes "settingsOK db"
  shows "settingsOK (snd (getSettings uid now db))"
proof (cases "docs db uid")
  case None
  obtain s db1 where n: "newUserSettings now db = (s, db1)" by (cases "newUserSettings now db")
  with newUserSettings_ok[of now db] have "docOK s" "docs db1 = docs db" by simp_all
  with assms have "settingsOK (saveSettings uid now s db1)" by (intro settingsOK_save) simp_all
  with None n show ?thesis by (simp add: getSettings_def)
next
  case (Some s)
  then have "s \<in> ran (docs db)" by (auto simp: ran_def)
  with assms have ok: "docOK s" by (simp add: settingsOK_def)
  define s1 where "s1 = (if tradingHomework s = [] then s\<lparr>tradingHomework := castItems (nextId db) DEFAULT_HOMEWORK\<rparr> else s)"
  define db1 where "db1 = (if tradingHomework s = [] then db\<lparr>nextId := nextId db + length DEFAULT_HOMEWORK\<rparr> else db)"
  define s2 where "s2 = (if tradingPlans s1 = [] then s1\<lparr>tradingPlans := castItems (nextId db1) DEFAULT_PLANS\<rparr> else s1)"
  define db2 where "db2 = (if tradingPlans s1 = [] then db1\<lparr>nextId := nextId db1 + length DEFAULT_PLANS\<rparr> else db1)"
  have ok1: "docOK s1" using ok
    by (simp add: s1_def docOK_def itemOK_castItems DEFAULT_HOMEWORK_nonblank)
  have ok2: "docOK s2" using ok1
    by (simp add: s2_def docOK_def itemOK_castItems DEFAULT_PLANS_nonblank)
  have d2: "docs db2 = docs db" by (simp add: db2_def db1_def)
  have sv: "settingsOK (saveSettings uid now s2 db2)"
    using assms d2 ok2 by (rule settingsOK_save)
  have "snd (getSettings uid now db) = (if tradingHomework s = [] \<or> tradingPlans s1 = [] then saveSettings uid now s2 db2 else db)"
    using Some by (simp add: getSettings_def s1_def s2_def db1_def db2_def Let_def)
  with sv assms show ?thesis by simp
qed

lemma putPrinciples_ok:
  assumes "settingsOK db"
  shows "settingsOK (snd (putPrinciples uid ps cs now db))"
proof -
  obtain s0 db0 where f: "findOrNew uid now db = (s0, db0)" by (cases "findOrNew uid now db")
  with findOrNew_ok[OF assms, of uid now] have ok: "docOK s0" and d: "docs db0 = docs db" by simp_all
  define s1 where "s1 = (case ps of None \<Rightarrow> s0 | Some p \<Rightarrow> s0\<lparr>presetPrinciples := p\<rparr>)"
  define s2 where "s2 = (case cs of None \<Rightarrow> s1 | Some c \<Rightarrow> s1\<lparr>customPrinciples := filter (\<lambda>p. trim p \<noteq> []) c\<rparr>)"
  have "docOK s2" using ok by (simp add: s1_def s2_def docOK_def split: option.splits)
  with assms d have "settingsOK (saveSettings uid now s2 db0)" by (intro settingsOK_save) simp_all
  then show ?thesis unfolding s2_def s1_def by (simp add: putPrinciples_def f Let_def)
qed

lemma putList_ok:
  assumes "settingsOK db"
  shows "settingsOK (snd (putList w uid xs now db))"
proof (cases xs)
  case None
  with assms show ?thesis by (simp add: putList_def)
next
  case (Some l)
  obtain s0 db0 where f: "findOrNew uid now db = (s0, db0)" by (cases "findOrNew uid now db")
  with findOrNew_ok[OF assms, of uid now] have ok: "docOK s0" and d: "docs db0 = docs db" by simp_all
  have "docOK (setList w (castItems (nextId db0) (submittedItems l)) s0)"
    using ok by (intro docOK_setList itemOK_castItems submittedItems_nonblank)
  with assms d have "settingsOK (saveSettings uid now (setList w (castItems (nextId db0) (submittedItems l)) s0)
      (db0\<lparr>nextId := nextId db0 + length (submittedItems l)\<rparr>))"
    by (intro settingsOK_save) simp_all
  then show ?thesis by (simp add: putList_def Some f Let_def)
qed

lemma postItem_ok:
  assumes "settingsOK db"
  shows "settingsOK (snd (postItem w uid title content now db))"
proof (cases "blankTitle title")
  case True
  with assms show ?thesis by (simp add: postItem_def)
next
  case False
  obtain s0 db0 where f: "findOrNew uid now db = (s0, db0)" by (cases "findOrNew uid now db")
  with findOrNew_ok[OF assms, of uid now] have ok: "docOK s0" and d: "docs db0 = docs db" by simp_all
  have "itemOK (castItem (nextId db0) (trim (the title), orEmpty content))"
    using not_blankTitle[OF False] by (intro itemOK_castItem) (simp add: trim_idem)
  then have "docOK (setList w (getList w s0 @ [castItem (nextId db0) (trim (the title), orEmpty content)]) s0)"
    using ok docOK_getList[OF ok, of w] by (intro docOK_setList) simp_all
  with assms d have "settingsOK (saveSettings uid now
      (setList w (getList w s0 @ [castItem (nextId db0) (trim (the title), orEmpty content)]) s0)
      (db0\<lparr>nextId := nextId db0 + 1\<rparr>))"
    by (intro settingsOK_save) simp_all
  then show ?thesis by (simp add: postItem_def False f Let_def)
qed

lemma putItem_ok:
  assumes "settingsOK db"
  shows "settingsOK (snd (putItem w uid idParam title content now db))"
proof (cases "blankTitle title \<or> docs db uid = None")
  case True
  with assms show ?thesis by (auto simp: putItem_def)
next
  case False
  then obtain s where s: "docs db uid = Some s" and nb: "\<not> blankTitle title" by auto
  then have "s \<in> ran (docs db)" by (auto simp: ran_def)
  with assms have ok: "docOK s" by (simp add: settingsOK_def)
  have "docOK (setList w (assignItem idParam (trim (the title)) (orEmpty content) (getList w s)) s)"
    using ok docOK_getList[OF ok, of w] not_blankTitle[OF nb]
    by (intro docOK_setList list_all_assignItem) (simp_all add: trim_idem)
  with assms have "settingsOK (saveSettings uid now
      (setList w (assignItem idParam (trim (the title)) (orEmpty content) (getList w s)) s) db)"
    by (intro settingsOK_save) simp_all
  with assms show ?thesis by (simp add: putItem_def nb s Let_def split: option.splits)
qed

lemma deleteItem_ok:
  assumes "settingsOK db"
  shows "settingsOK (snd (deleteItem w uid idParam now db))"
proof (cases "docs db uid")
  case None
  with assms show ?thesis by (simp add: deleteItem_def)
next
  case (Some s)
  then have "s \<in> ran (docs db)" by (auto simp: ran_def)
  with assms have ok: "docOK s" by (simp add: settingsOK_def)
  have "docOK (setList w (pull idParam (getList w s)) s)"
    using ok docOK_getList[OF ok, of w] by (intro docOK_setList list_all_pull)
  with assms have "settingsOK (saveSettings uid now (setList w (pull idParam (getList w s)) s) db)"
    by (intro settingsOK_save) simp_all
  with assms show ?thesis by (simp add: deleteItem_def Some Let_def split: option.splits)
qed

lemma reachableSettings_ok: "reachableSettings db \<Longrightarrow> settingsOK db"
proof (induction rule: reachableSettings.induct)
  case (init n)
  show ?case by (simp add: settingsOK_def)
qed (simp_all add: getSettings_ok putPrinciples_ok putList_ok postItem_ok putItem_ok deleteItem_ok)

lemma findOrNewDaily_ok:
  assumes "dailyOK db"
  shows "list_all itemOK (daily_tradingPlans (findOrNewDaily uid date now db))"
proof (cases "records db (uid, date)")
  case None
  then show ?thesis by (simp add: findOrNewDaily_def)
next
  case (Some r)
  then have "r \<in> ran (records db)" by (auto simp: ran_def)
  with assms Some show ?thesis by (simp add: findOrNewDaily_def dailyOK_def)
qed

lemma dailyOK_save:
  assumes "dailyOK db" and "records db' = records db" and "list_all itemOK (daily_tradingPlans r)"
  shows "dailyOK (saveDaily uid date now r db')"
proof -
  have "\<And>x. x \<in> ran ((records db)((uid, date) \<mapsto> r\<lparr>daily_updatedAt := now\<rparr>))
          \<Longrightarrow> list_all itemOK (daily_tradingPlans x)"
  proof -
    fix x assume "x \<in> ran ((records db)((uid, date) \<mapsto> r\<lparr>daily_updatedAt := now\<rparr>))"
    then have "x = r\<lparr>daily_updatedAt := now\<rparr> \<or> x \<in> ran (records db)"
      by (auto simp: ran_def split: if_splits)
    with assms(1,3) show "list_all itemOK (daily_tradingPlans x)" by (auto simp: dailyOK_def)
  qed
  then show ?thesis by (simp add: dailyOK_def saveDaily_def assms(2))
qed

lemma putDaily_ok:
  assumes "dailyOK db"
  shows "dailyOK (snd (putDaily uid date xs t now db))"
proof (cases "isDateFormat date")
  case False
  with assms show ?thesis by (simp add: putDaily_def)
next
  case True
  let ?r0 = "findOrNewDaily uid date now db"
  define r1 where "r1 = (case xs of None \<Rightarrow> ?r0
      | Some l \<Rightarrow> ?r0\<lparr>daily_tradingPlans := castItems (daily_nextId db) (submittedItems l)\<rparr>)"
  define db1 where "db1 = (case xs of None \<Rightarrow> db
      | Some l \<Rightarrow> db\<lparr>daily_nextId := daily_nextId db + length (submittedItems l)\<rparr>)"
  define r2 where "r2 = (case t of None \<Rightarrow> r1 | Some u \<Rightarrow> r1\<lparr>reflection := trim (trim u)\<rparr>)"
  have ok1: "list_all itemOK (daily_tradingPlans r1)"
    using findOrNewDaily_ok[OF assms, of uid date now]
    by (simp add: r1_def itemOK_castItems submittedItems_nonblank split: option.splits)
  then have ok2: "list_all itemOK (daily_tradingPlans r2)"
    by (simp add: r2_def split: option.splits)
  have d: "records db1 = records db" by (simp add: db1_def split: option.splits)
  have sv: "dailyOK (saveDaily uid date now r2 db1)" using assms d ok2 by (rule dailyOK_save)
  have "snd (putDaily uid date xs t now db) = saveDaily uid date now r2 db1"
    using True by (simp add: putDaily_def r2_def r1_def db1_def Let_def split: option.splits)
  with sv show ?thesis by simp
qed

lemma postPlan_ok:
  assumes "dailyOK db"
  shows "dailyOK (snd (postPlan uid date title content now db))"
proof (cases "isDateFormat date \<and> \<not> blankTitle title")
  case False
  with assms show ?thesis by (auto simp: postPlan_def)
next
  case True
  then have nb: "\<not> blankTitle title" by simp
  let ?r0 = "findOrNewDaily uid date now db"
  have "itemOK (castItem (daily_nextId db) (trim (the title), orEmpty content))"
    using not_blankTitle[OF nb] by (intro itemOK_castItem) (simp add: trim_idem)
  with findOrNewDaily_ok[OF assms, of uid date now]
  have "list_all itemOK (daily_tradingPlans
      (?r0\<lparr>daily_tradingPlans := daily_tradingPlans ?r0 @ [castItem (daily_nextId db) (trim (the title), orEmpty content)]\<rparr>))"
    by simp
  with assms have "dailyOK (saveDaily uid date now
      (?r0\<lparr>daily_tradingPlans := daily_tradingPlans ?r0 @ [castItem (daily_nextId db) (trim (the title), orEmpty content)]\<rparr>)
      (db\<lparr>daily_nextId := daily_nextId db + 1\<rparr>))"
    by (intro dailyOK_save) simp_all
  with True show ?thesis by (simp add: postPlan_def Let_def)
qed

lemma putPlan_ok:
  assumes "dailyOK db"
  shows "dailyOK (snd (putPlan uid date idParam title content now db))"
proof (cases "blankTitle title \<or> records db (uid, date) = None")
  case True
  with assms show ?thesis by (auto simp: putPlan_def)
next
  case False
  then obtain r where r: "records db (uid, date) = Some r" and nb: "\<not> blankTitle title" by auto
  then have "r \<in> ran (records db)" by (auto simp: ran_def)
  with assms have ok: "list_all itemOK (daily_tradingPlans r)" by (simp add: dailyOK_def)
  have "list_all itemOK (daily_tradingPlans (r\<lparr>daily_tradingPlans :=
      assignItem idParam (trim (the title)) (orEmpty content) (daily_tradingPlans r)\<rparr>))"
    using ok not_blankTitle[OF nb] by (simp add: list_all_assignItem trim_idem)
  with assms have "dailyOK (saveDaily uid date now (r\<lparr>daily_tradingPlans :=
      assignItem idParam (trim (the title)) (orEmpty content) (daily_tradingPlans r)\<rparr>) db)"
    by (intro dailyOK_save) simp_all
  with assms show ?thesis by (simp add: putPlan_def nb r Let_def split: option.splits)
qed

lemma deletePlan_ok:
  assumes "dailyOK db"
  shows "dailyOK (snd (deletePlan uid date idParam now db))"
proof (cases "records db (uid, date)")
  case None
  with assms show ?thesis by (simp add: deletePlan_def)
next
  case (Some r)
  then have "r \<in> ran (records db)" by (auto simp: ran_def)
  with assms have ok: "list_all itemOK (daily_tradingPlans r)" by (simp add: dailyOK_def)
  then have "list_all itemOK (daily_tradingPlans (r\<lparr>daily_tradingPlans := pull idParam (daily_tradingPlans r)\<rparr>))"
    by (simp add: list_all_pull)
  with assms have "dailyOK (saveDaily uid date now (r\<lparr>daily_tradingPlans := pull idParam (daily_tradingPlans r)\<rparr>) db)"
    by (intro dailyOK_save) simp_all
  with assms show ?thesis by (simp add: deletePlan_def Some Let_def split: option.splits)
qed

lemma putReflection_ok:
  assumes "dailyOK db"
  shows "dailyOK (snd (putReflection uid date t now db))"
proof (cases "isDateFormat date")
  case False
  with assms show ?thesis by (simp add: putReflection_def)
next
  case True
  let ?r0 = "findOrNewDaily uid date now db"
  have "list_all itemOK (daily_tradingPlans (?r0\<lparr>reflection := trim (trim (orEmpty t))\<rparr>))"
    using findOrNewDaily_ok[OF assms, of uid date now] by simp
  with assms have "dailyOK (saveDaily uid date now (?r0\<lparr>reflection := trim (trim (orEmpty t))\<rparr>) db)"
    by (intro dailyOK_save) simp_all
  with True show ?thesis by (simp add: putReflection_def Let_def)
qed

lemma reachableDaily_ok: "reachableDaily db \<Longrightarrow> dailyOK db"
proof (induction rule: reachableDaily.induct)
  case (init n)
  show ?case by (simp add: dailyOK_def)
qed (simp_all add: putDaily_ok postPlan_ok putPlan_ok deletePlan_ok putReflection_ok)

lemma putList_stored:
  "\<exists>s. docs (snd (putList w uid (Some xs) now db)) uid = Some s
       \<and> fst (putList w uid (Some xs) now db)
           = \<lparr>code = 200, message = msg_list_saved w, data = Some (ItemList (getList w s))\<rparr>
       \<and> map titleContent (getList w s)
           = map (\<lambda>x. (trim (orEmpty (fst x)), trim (orEmpty (snd x))))
               (filter (\<lambda>x. trim (orEmpty (fst x)) \<noteq> []) xs)"
proof -
  obtain s0 db0 where f: "findOrNew uid now db = (s0, db0)" by (cases "findOrNew uid now db")
  show ?thesis
    by (cases w) (simp_all add: putList_def f Let_def saveSettings_def titleContent_castItems submittedItems_spec)
qed

lemma putDaily_stored:
  assumes "isDateFormat date"
  shows "\<exists>r. records (snd (putDaily uid date (Some xs) t now db)) (uid, date) = Some r
       \<and> map titleContent (daily_tradingPlans r)
           = map (\<lambda>x. (trim (orEmpty (fst x)), trim (orEmpty (snd x))))
               (filter (\<lambda>x. trim (orEmpty (fst x)) \<noteq> []) xs)"
  using assms
  by (simp add: putDaily_def Let_def saveDaily_def titleContent_castItems submittedItems_spec
      split: option.splits)

subsection \<open>Stored titles\<close>

text \<open>
  C7. In every settings collection and every daily-record collection that a sequence of
  requests builds from the empty one (\<open>settingsOK\<close>, \<open>dailyOK\<close>), every item of the
  homework list, the plans list and a day's plans has a title that is not empty after
  trimming, stored trimmed, with its content stored trimmed. And a list write
  (\<^verbatim>\<open>PUT /homework\<close>, \<^verbatim>\<open>PUT /plans\<close>, \<^verbatim>\<open>PUT /:date\<close> with a well-formed date) stores
  exactly the submitted items whose title is not blank, in their order, with title and
  content trimmed.
\<close>

theorem stored_titles_nonblank:
  "(reachableSettings db \<longrightarrow> settingsOK db)
   \<and> (reachableDaily ddb \<longrightarrow> dailyOK ddb)
   \<and> (\<exists>s. docs (snd (putList w uid (Some xs) now db0)) uid = Some s
          \<and> map titleContent (getList w s)
              = map (\<lambda>x. (trim (orEmpty (fst x)), trim (orEmpty (snd x))))
                  (filter (\<lambda>x. trim (orEmpty (fst x)) \<noteq> []) xs))
   \<and> (isDateFormat date \<longrightarrow>
        (\<exists>r. records (snd (putDaily uid date (Some xs) t now ddb0)) (uid, date) = Some r
          \<and> map titleContent (daily_tradingPlans r)
              = map (\<lambda>x. (trim (orEmpty (fst x)), trim (orEmpty (snd x))))
                  (filter (\<lambda>x. trim (orEmpty (fst x)) \<noteq> []) xs)))"
proof (intro conjI impI)
  show "reachableSettings db \<Longrightarrow> settingsOK db" by (rule reachableSettings_ok)
  show "reachableDaily ddb \<Longrightarrow> dailyOK ddb" by (rule reachableDaily_ok)
  show "\<exists>s. docs (snd (putList w uid (Some xs) now db0)) uid = Some s
          \<and> map titleContent (getList w s)
              = map (\<lambda>x. (trim (orEmpty (fst x)), trim (orEmpty (snd x))))
                  (filter (\<lambda>x. trim (orEmpty (fst x)) \<noteq> []) xs)"
    using putList_stored[of w uid xs now db0] by blast
  show "isDateFormat date \<Longrightarrow>
        \<exists>r. records (snd (putDaily uid date (Some xs) t now ddb0)) (uid, date) = Some r
          \<and> map titleContent (daily_tradingPlans r)
              = map (\<lambda>x. (trim (orEmpty (fst x)), trim (orEmpty (snd x))))
                  (filter (\<lambda>x. trim (orEmpty (fst x)) \<noteq> []) xs)"
    by (rule putDaily_stored)
qed

lemma isDateFormat_example: "isDateFormat ''2024-01-12''"
  by (simp add: isDateFormat_def isDigit_def)

theorem stored_titles_nonblank_witness:
  "reachableSettings (snd (putList Homework 7 (Some [(Some [32, 97, 32], Some [32, 98]), (Some [32, 9], Some [120]), (None, Some [121])])
        0 \<lparr>docs = Map.empty, nextId = 0\<rparr>))
   \<and> settingsOK (snd (putList Homework 7 (Some [(Some [32, 97, 32], Some [32, 98]), (Some [32, 9], Some [120]), (None, Some [121])])
        0 \<lparr>docs = Map.empty, nextId = 0\<rparr>))
   \<and> (\<exists>s. docs (snd (putList Homework 7 (Some [(Some [32, 97, 32], Some [32, 98]), (Some [32, 9], Some [120]), (None, Some [121])])
        0 \<lparr>docs = Map.empty, nextId = 0\<rparr>)) 7 = Some s
        \<and> map titleContent (tradingHomework s) = [([97], [98])])
   \<and> reachableDaily (snd (putDaily 7 ''2024-01-12'' (Some [(Some [32, 97, 32], Some [32, 98]), (Some [32, 9], Some [120])]) None
        0 \<lparr>records = Map.empty, daily_nextId = 0\<rparr>))
   \<and> dailyOK (snd (putDaily 7 ''2024-01-12'' (Some [(Some [32, 97, 32], Some [32, 98]), (Some [32, 9], Some [120])]) None
        0 \<lparr>records = Map.empty, daily_nextId = 0\<rparr>))
   \<and> isDateFormat ''2024-01-12''
   \<and> (\<exists>r. records (snd (putDaily 7 ''2024-01-12'' (Some [(Some [32, 97, 32], Some [32, 98]), (Some [32, 9], Some [120])]) None
        0 \<lparr>records = Map.empty, daily_nextId = 0\<rparr>)) (7, ''2024-01-12'') = Some r
        \<and> map titleContent (daily_tradingPlans r) = [([97], [98])])"
proof -
  let ?xs = "[(Some [32, 97, 32], Some [32, 98]), (Some [32, 9], Some [120]), (None, Some [121])]"
  let ?ys = "[(Some [32, 97, 32], Some [32, 98]), (Some [32, 9], Some [120])]"
  let ?db = "snd (putList Homework 7 (Some ?xs) 0 \<lparr>docs = Map.empty, nextId = 0\<rparr>)"
  let ?ddb = "snd (putDaily 7 ''2024-01-12'' (Some ?ys) None 0 \<lparr>records = Map.empty, daily_nextId = 0\<rparr>)"
  have r: "reachableSettings ?db"
    by (rule reachableSettings.put_list [OF reachableSettings.init])
  have rd: "reachableDaily ?ddb"
    by (rule reachableDaily.put_daily [OF reachableDaily.init])
  note inst = stored_titles_nonblank [where db = ?db and ddb = ?ddb and w = Homework and uid = 7
      and xs = ?ys and now = 0 and ?db0.0 = "\<lparr>docs = Map.empty, nextId = 0\<rparr>"
      and date = "''2024-01-12''" and t = None and ?ddb0.0 = "\<lparr>records = Map.empty, daily_nextId = 0\<rparr>"]
  note inst2 = stored_titles_nonblank [where db = ?db and ddb = ?ddb and w = Homework and uid = 7
      and xs = ?xs and now = 0 and ?db0.0 = "\<lparr>docs = Map.empty, nextId = 0\<rparr>"
      and date = "''2024-01-12''" and t = None and ?ddb0.0 = "\<lparr>records = Map.empty, daily_nextId = 0\<rparr>"]
  have tr: "trim [32, 97, 32] = [97]" "trim [32, 98] = [98]" "trim [32, 9] = []" "trim [120] = [120]"
    "trim [] = []" "trim [121] = [121]"
    by (simp_all add: trim_def isWhiteSpace_def)
  from inst r have a: "settingsOK ?db" by blast
  from inst rd have b: "dailyOK ?ddb" by blast
  from inst2 have c: "\<exists>s. docs ?db 7 = Some s \<and> map titleContent (tradingHomework s) = [([97], [98])]"
    by (simp add: orEmpty_def tr)
  from inst isDateFormat_example
  have d: "\<exists>r. records ?ddb (7, ''2024-01-12'') = Some r \<and> map titleContent (daily_tradingPlans r) = [([97], [98])]"
    by (simp add: orEmpty_def tr)
  from r a c rd b isDateFormat_example d show ?thesis by (intro conjI)
qed

subsection \<open>Default settings\<close>

lemma length_DEFAULTS: "length DEFAULT_HOMEWORK = 3" "length DEFAULT_PLANS = 3"
  by (simp_all add: DEFAULT_HOMEWORK_def DEFAULT_PLANS_def)

lemma titleContent_defaults:
  "map titleContent (castItems n DEFAULT_HOMEWORK) = DEFAULT_HOMEWORK"
  "map titleContent (castItems n DEFAULT_PLANS) = DEFAULT_PLANS"
  by (simp_all add: titleContent_castItems trim_DEFAULT_HOMEWORK trim_DEFAULT_PLANS)

lemma getSettings_new:
  assumes "docs db uid = None"
  shows "\<exists>hw pl s'. fst (getSettings uid now db)
            = \<lparr>code = 200, message = msg_get_ok,
               data = Some (AllSettings [\<lparr>preset_index = 0, isSelected = True\<rparr>] [] hw pl)\<rparr>
          \<and> docs (snd (getSettings uid now db)) uid = Some s'
          \<and> tradingHomework s' = hw \<and> tradingPlans s' = pl
          \<and> map titleContent hw = DEFAULT_HOMEWORK \<and> map titleContent pl = DEFAULT_PLANS
          \<and> length hw = 3 \<and> length pl = 3"
  using assms
  by (simp add: getSettings_def newUserSettings_def saveSettings_def titleContent_defaults
      length_castItems length_DEFAULTS)

lemma getSettings_backfill:
  assumes "docs db uid = Some s"
  shows "\<exists>hw pl. fst (getSettings uid now db)
            = \<lparr>code = 200, message = msg_get_ok,
               data = Some (AllSettings (presetPrinciples s) (customPrinciples s) hw pl)\<rparr>
          \<and> (if tradingHomework s = [] then map titleContent hw = DEFAULT_HOMEWORK \<and> length hw = 3
              else hw = tradingHomework s)
          \<and> (if tradingPlans s = [] then map titleContent pl = DEFAULT_PLANS \<and> length pl = 3
              else pl = tradingPlans s)
          \<and> (if tradingHomework s = [] \<or> tradingPlans s = []
              then \<exists>s'. docs (snd (getSettings uid now db)) uid = Some s'
                     \<and> tradingHomework s' = hw \<and> tradingPlans s' = pl
              else snd (getSettings uid now db) = db)"
  using assms
  by (simp add: getSettings_def saveSettings_def titleContent_defaults length_castItems
      length_DEFAULTS Let_def)

text \<open>
  C8. For a user without a settings document, \<^verbatim>\<open>GET /settings\<close> creates and stores one
  and returns the three default homework items and the three default plan items (titles
  and contents of \<open>DEFAULT_HOMEWORK\<close> and \<open>DEFAULT_PLANS\<close>, with fresh identifiers). For
  an existing document, an empty homework list or plans list is replaced by the same
  defaults, stored and returned; a list that is not empty is returned as it is.
\<close>

theorem getSettings_defaults:
  "(docs db uid = None \<longrightarrow>
      (\<exists>hw pl s'. fst (getSettings uid now db)
            = \<lparr>code = 200, message = msg_get_ok,
               data = Some (AllSettings [\<lparr>preset_index = 0, isSelected = True\<rparr>] [] hw pl)\<rparr>
          \<and> docs (snd (getSettings uid now db)) uid = Some s'
          \<and> tradingHomework s' = hw \<and> tradingPlans s' = pl
          \<and> map titleContent hw = DEFAULT_HOMEWORK \<and> map titleContent pl = DEFAULT_PLANS
          \<and> length hw = 3 \<and> length pl = 3))
   \<and> (docs db uid = Some s \<longrightarrow>
      (\<exists>hw pl. fst (getSettings uid now db)
            = \<lparr>code = 200, message = msg_get_ok,
               data = Some (AllSettings (presetPrinciples s) (customPrinciples s) hw pl)\<rparr>
          \<and> (if tradingHomework s = [] then map titleContent hw = DEFAULT_HOMEWORK \<and> length hw = 3
              else hw = tradingHomework s)
          \<and> (if tradingPlans s = [] then map titleContent pl = DEFAULT_PLANS \<and> length pl = 3
              else pl = tradingPlans s)
          \<and> (if tradingHomework s = [] \<or> tradingPlans s = []
              then \<exists>s'. docs (snd (getSettings uid now db)) uid = Some s'
                     \<and> tradingHomework s' = hw \<and> tradingPlans s' = pl
              else snd (getSettings uid now db) = db)))"
  using getSettings_new[of db uid now] getSettings_backfill[of db uid s now] by blast

theorem getSettings_defaults_witness:
  "docs \<lparr>docs = Map.empty, nextId = 0\<rparr> 7 = None
   \<and> (\<exists>hw pl. fst (getSettings 7 0 \<lparr>docs = Map.empty, nextId = 0\<rparr>)
            = \<lparr>code = 200, message = msg_get_ok,
               data = Some (AllSettings [\<lparr>preset_index = 0, isSelected = True\<rparr>] [] hw pl)\<rparr>
          \<and> map titleContent hw = DEFAULT_HOMEWORK \<and> map titleContent pl = DEFAULT_PLANS
          \<and> length hw = 3 \<and> length pl = 3)
   \<and> docs \<lparr>docs = [7 \<mapsto> \<lparr>presetPrinciples = [], customPrinciples = [], tradingHomework = [],
                            tradingPlans = [\<lparr>item_id = 1, item_title = [97], item_content = []\<rparr>],
                            updatedAt = 0\<rparr>], nextId = 2\<rparr> 7
       = Some \<lparr>presetPrinciples = [], customPrinciples = [], tradingHomework = [],
               tradingPlans = [\<lparr>item_id = 1, item_title = [97], item_content = []\<rparr>], updatedAt = 0\<rparr>
   \<and> (\<exists>hw. fst (getSettings 7 5 \<lparr>docs = [7 \<mapsto> \<lparr>presetPrinciples = [], customPrinciples = [], tradingHomework = [],
                            tradingPlans = [\<lparr>item_id = 1, item_title = [97], item_content = []\<rparr>],
                            updatedAt = 0\<rparr>], nextId = 2\<rparr>)
            = \<lparr>code = 200, message = msg_get_ok,
               data = Some (AllSettings [] [] hw [\<lparr>item_id = 1, item_title = [97], item_content = []\<rparr>])\<rparr>
          \<and> map titleContent hw = DEFAULT_HOMEWORK)"
proof -
  let ?e = "\<lparr>docs = Map.empty, nextId = 0\<rparr>"
  let ?s = "\<lparr>presetPrinciples = [], customPrinciples = [], tradingHomework = [],
             tradingPlans = [\<lparr>item_id = 1, item_title = [97], item_content = []\<rparr>], updatedAt = 0\<rparr>"
  let ?db = "\<lparr>docs = [7 \<mapsto> ?s], nextId = 2\<rparr>"
  have n: "docs ?e 7 = None" by simp
  have x: "docs ?db 7 = Some ?s" by simp
  from getSettings_defaults [of ?e 7 0, THEN conjunct1, THEN mp, OF n]
  have a: "\<exists>hw pl. fst (getSettings 7 0 ?e)
            = \<lparr>code = 200, message = msg_get_ok,
               data = Some (AllSettings [\<lparr>preset_index = 0, isSelected = True\<rparr>] [] hw pl)\<rparr>
          \<and> map titleContent hw = DEFAULT_HOMEWORK \<and> map titleContent pl = DEFAULT_PLANS
          \<and> length hw = 3 \<and> length pl = 3" by blast
  from getSettings_defaults [of ?db 7 5 ?s, THEN conjunct2, THEN mp, OF x]
  have b: "\<exists>hw. fst (getSettings 7 5 ?db)
            = \<lparr>code = 200, message = msg_get_ok,
               data = Some (AllSettings [] [] hw [\<lparr>item_id = 1, item_title = [97], item_content = []\<rparr>])\<rparr>
          \<and> map titleContent hw = DEFAULT_HOMEWORK" by auto
  from n a x b show ?thesis by (intro conjI)
qed

subsection \<open>Updating and deleting an item that is not there\<close>

lemma deleteItem_not_found:
  assumes "docs db uid = None \<or> (\<exists>s. docs db uid = Some s \<and> findItem idParam (getList w s) = None)"
  shows "isNotFound (fst (deleteItem w uid idParam now db)) \<and> snd (deleteItem w uid idParam now db) = db"
  using assms by (auto simp: deleteItem_def isNotFound_def)

lemma putItem_not_found:
  assumes "docs db uid = None \<or> (\<exists>s. docs db uid = Some s \<and> findItem idParam (getList w s) = None)"
  shows "snd (putItem w uid idParam title content now db) = db
         \<and> (if blankTitle title then code (fst (putItem w uid idParam title content now db)) = 400
             else isNotFound (fst (putItem w uid idParam title content now db)))"
  using assms by (auto simp: putItem_def isNotFound_def)

lemma deletePlan_not_found:
  assumes "records ddb (uid, date) = None
           \<or> (\<exists>r. records ddb (uid, date) = Some r \<and> findItem idParam (daily_tradingPlans r) = None)"
  shows "isNotFound (fst (deletePlan uid date idParam now ddb)) \<and> snd (deletePlan uid date idParam now ddb) = ddb"
  using assms by (auto simp: deletePlan_def isNotFound_def)

lemma putPlan_not_found:
  assumes "records ddb (uid, date) = None
           \<or> (\<exists>r. records ddb (uid, date) = Some r \<and> findItem idParam (daily_tradingPlans r) = None)"
  shows "snd (putPlan uid date idParam title content now ddb) = ddb
         \<and> (if blankTitle title then code (fst (putPlan uid date idParam title content now ddb)) = 400
             else isNotFound (fst (putPlan uid date idParam title content now ddb)))"
  using assms by (auto simp: putPlan_def isNotFound_def)

text \<open>
  C6, as amended. When the parent document does not exist or the identifier names no item
  of its list, a delete of a settings item or of a day's plan answers NotFound (code 404,
  no data) and leaves the collection as it was; an update does the same when its title is
  not blank, and answers 400 when the title is blank, also leaving the collection as it
  was.
\<close>

theorem subitem_not_found:
  "((docs db uid = None \<or> (\<exists>s. docs db uid = Some s \<and> findItem idParam (getList w s) = None)) \<longrightarrow>
      isNotFound (fst (deleteItem w uid idParam now db))
      \<and> snd (deleteItem w uid idParam now db) = db
      \<and> snd (putItem w uid idParam title content now db) = db
      \<and> (if blankTitle title then code (fst (putItem w uid idParam title content now db)) = 400
          else isNotFound (fst (putItem w uid idParam title content now db))))
   \<and> ((records ddb (uid, date) = None
        \<or> (\<exists>r. records ddb (uid, date) = Some r \<and> findItem idParam (daily_tradingPlans r) = None)) \<longrightarrow>
      isNotFound (fst (deletePlan uid date idParam now ddb))
      \<and> snd (deletePlan uid date idParam now ddb) = ddb
      \<and> snd (putPlan uid date idParam title content now ddb) = ddb
      \<and> (if blankTitle title then code (fst (putPlan uid date idParam title content now ddb)) = 400
          else isNotFound (fst (putPlan uid date idParam title content now ddb))))"
  using deleteItem_not_found[of db uid idParam w now] putItem_not_found[of db uid idParam w title content now]
    deletePlan_not_found[of ddb uid date idParam now] putPlan_not_found[of ddb uid date idParam title content now]
  by blast

theorem subitem_not_found_witness:
  "docs \<lparr>docs = [7 \<mapsto> \<lparr>presetPrinciples = [], customPrinciples = [],
                        tradingHomework = [\<lparr>item_id = 1, item_title = [97], item_content = []\<rparr>],
                        tradingPlans = [], updatedAt = 0\<rparr>], nextId = 2\<rparr> 7
     = Some \<lparr>presetPrinciples = [], customPrinciples = [],
             tradingHomework = [\<lparr>item_id = 1, item_title = [97], item_content = []\<rparr>],
             tradingPlans = [], updatedAt = 0\<rparr>
   \<and> findItem (Some 99) (getList Homework \<lparr>presetPrinciples = [], customPrinciples = [],
             tradingHomework = [\<lparr>item_id = 1, item_title = [97], item_content = []\<rparr>],
             tradingPlans = [], updatedAt = 0\<rparr>) = None
   \<and> deleteItem Homework 7 (Some 99) 5
        \<lparr>docs = [7 \<mapsto> \<lparr>presetPrinciples = [], customPrinciples = [],
                        tradingHomework = [\<lparr>item_id = 1, item_title = [97], item_content = []\<rparr>],
                        tradingPlans = [], updatedAt = 0\<rparr>], nextId = 2\<rparr>
     = (\<lparr>code = 404, message = msg_homework_missing, data = None\<rparr>,
        \<lparr>docs = [7 \<mapsto> \<lparr>presetPrinciples = [], customPrinciples = [],
                        tradingHomework = [\<lparr>item_id = 1, item_title = [97], item_content = []\<rparr>],
                        tradingPlans = [], updatedAt = 0\<rparr>], nextId = 2\<rparr>)
   \<and> \<not> blankTitle (Some [98])
   \<and> isNotFound (fst (putItem Homework 7 (Some 99) (Some [98]) None 5
        \<lparr>docs = [7 \<mapsto> \<lparr>presetPrinciples = [], customPrinciples = [],
                        tradingHomework = [\<lparr>item_id = 1, item_title = [97], item_content = []\<rparr>],
                        tradingPlans = [], updatedAt = 0\<rparr>], nextId = 2\<rparr>))
   \<and> snd (putItem Homework 7 (Some 99) (Some [98]) None 5
        \<lparr>docs = [7 \<mapsto> \<lparr>presetPrinciples = [], customPrinciples = [],
                        tradingHomework = [\<lparr>item_id = 1, item_title = [97], item_content = []\<rparr>],
                        tradingPlans = [], updatedAt = 0\<rparr>], nextId = 2\<rparr>)
     = \<lparr>docs = [7 \<mapsto> \<lparr>presetPrinciples = [], customPrinciples = [],
                        tradingHomework = [\<lparr>item_id = 1, item_title = [97], item_content = []\<rparr>],
                        tradingPlans = [], updatedAt = 0\<rparr>], nextId = 2\<rparr>
   \<and> records \<lparr>records = Map.empty, daily_nextId = 0\<rparr> (7, ''2024-01-12'') = None
   \<and> isNotFound (fst (deletePlan 7 ''2024-01-12'' (Some 99) 5 \<lparr>records = Map.empty, daily_nextId = 0\<rparr>))
   \<and> isNotFound (fst (putPlan 7 ''2024-01-12'' (Some 99) (Some [98]) None 5 \<lparr>records = Map.empty, daily_nextId = 0\<rparr>))"
proof -
  let ?s = "\<lparr>presetPrinciples = [], customPrinciples = [],
             tradingHomework = [\<lparr>item_id = 1, item_title = [97], item_content = []\<rparr>],
             tradingPlans = [], updatedAt = 0\<rparr>"
  let ?db = "\<lparr>docs = [7 \<mapsto> ?s], nextId = 2\<rparr>"
  let ?ddb = "\<lparr>records = Map.empty, daily_nextId = 0\<rparr>"
  have a: "docs ?db 7 = Some ?s" by simp
  have b: "findItem (Some 99) (getList Homework ?s) = None" by (simp add: findItem_def)
  have c: "\<not> blankTitle (Some [98])" by (simp add: blankTitle_def falsy_def trim_def isWhiteSpace_def)
  have d: "records ?ddb (7, ''2024-01-12'') = None" by simp
  have ev: "deleteItem Homework 7 (Some 99) 5 ?db
     = (\<lparr>code = 404, message = msg_homework_missing, data = None\<rparr>, ?db)"
    by (simp add: deleteItem_def findItem_def)
  note inst = subitem_not_found [where db = ?db and uid = 7 and idParam = "Some 99" and w = Homework
      and now = 5 and title = "Some [98]" and content = None and ddb = ?ddb and date = "''2024-01-12''"]
  from inst a b c have e: "isNotFound (fst (putItem Homework 7 (Some 99) (Some [98]) None 5 ?db))"
    "snd (putItem Homework 7 (Some 99) (Some [98]) None 5 ?db) = ?db"
    by auto
  from inst d c have f: "isNotFound (fst (deletePlan 7 ''2024-01-12'' (Some 99) 5 ?ddb))"
    "isNotFound (fst (putPlan 7 ''2024-01-12'' (Some 99) (Some [98]) None 5 ?ddb))"
    by auto
  from a b ev c e d f show ?thesis by (intro conjI)
qed

text \<open>
  C6 as stated fails for an update whose title is blank: the title is checked before the
  lookup, so with identifier 99 naming no homework item of user 7, an update with the title
  of one space is answered with code 400 and the empty-title message, not with NotFound.
\<close>

theorem subitem_not_found_counterexample:
  "docs \<lparr>docs = [7 \<mapsto> \<lparr>presetPrinciples = [], customPrinciples = [],
                        tradingHomework = [\<lparr>item_id = 1, item_title = [97], item_content = []\<rparr>],
                        tradingPlans = [], updatedAt = 0\<rparr>], nextId = 2\<rparr> 7
     = Some \<lparr>presetPrinciples = [], customPrinciples = [],
             tradingHomework = [\<lparr>item_id = 1, item_title = [97], item_content = []\<rparr>],
             tradingPlans = [], updatedAt = 0\<rparr>
   \<and> findItem (Some 99) (tradingHomework \<lparr>presetPrinciples = [], customPrinciples = [],
             tradingHomework = [\<lparr>item_id = 1, item_title = [97], item_content = []\<rparr>],
             tradingPlans = [], updatedAt = 0\<rparr>) = None
   \<and> fst (putItem Homework 7 (Some 99) (Some [32]) (Some [98]) 5
        \<lparr>docs = [7 \<mapsto> \<lparr>presetPrinciples = [], customPrinciples = [],
                        tradingHomework = [\<lparr>item_id = 1, item_title = [97], item_content = []\<rparr>],
                        tradingPlans = [], updatedAt = 0\<rparr>], nextId = 2\<rparr>)
     = \<lparr>code = 400, message = msg_title_empty, data = None\<rparr>
   \<and> \<not> isNotFound (fst (putItem Homework 7 (Some 99) (Some [32]) (Some [98]) 5
        \<lparr>docs = [7 \<mapsto> \<lparr>presetPrinciples = [], customPrinciples = [],
                        tradingHomework = [\<lparr>item_id = 1, item_title = [97], item_content = []\<rparr>],
                        tradingPlans = [], updatedAt = 0\<rparr>], nextId = 2\<rparr>))"
  by (simp add: putItem_def blankTitle_def falsy_def trim_def isWhiteSpace_def findItem_def isNotFound_def)

end
